theory Spec2Isabelle
  imports Complex_Main
begin

section \<open>JavaScript values\<close>

text \<open>
  The values that reach the settings module in a JSON request body, and the values the
  handlers compute from them. A number is NaN, an infinity, or a finite value; the finite
  value is carried exactly (the rounding of a literal to binary64 is not modelled, only
  whether it overflows to an infinity, so a literal too small for binary64 stays a
  positive value and does not become 0). A string is a byte sequence (its UTF-8 text):
  \<open>length\<close>, \<open>substring\<close> and \<open>padEnd\<close> count bytes, which are the UTF-16 code
  units of the source for ASCII text only; decoding bytes as UTF-8 is the identity, with
  no replacement character; and the white space that \<open>Number\<close> strips is the ASCII
  white space.
\<close>

datatype jsnum = NaN | Inf bool | Fin rat

datatype jsval =
    JUndefined
  | JNull
  | JBool bool
  | JNum jsnum
  | JStr string
  | JArr "jsval list"
  | JObj "(string \<times> jsval) list"

text \<open>
  What the code uses of the platform and is not part of the repository: number
  formatting, the JSON parser and printer, \<open>Buffer.from\<close> on a value that is not a string,
  the random byte source, the AES-256-GCM primitive (key, nonce, text to ciphertext and
  tag; key, nonce, tag, ciphertext to text or failure), the process environment, the
  clock, and the rendering of a bound statement parameter that is not a string by the
  database driver (\<open>None\<close>: the statement is rejected, \<open>Some None\<close>: NULL).
\<close>

record runtime =
  Number_toString :: "rat \<Rightarrow> string"
  JSON_parse :: "string \<Rightarrow> jsval option"
  JSON_stringify :: "jsval \<Rightarrow> string"
  Buffer_from_object :: "jsval \<Rightarrow> string option"
  randomBytes :: "nat \<Rightarrow> string"
  gcm_encrypt :: "string \<Rightarrow> string \<Rightarrow> string \<Rightarrow> string \<times> string"
  gcm_decrypt :: "string \<Rightarrow> string \<Rightarrow> string \<Rightarrow> string \<Rightarrow> string option"
  ENCRYPTION_KEY :: "string option"
  Date_now_iso :: "string"
  Date_after_days :: "jsval \<Rightarrow> string"
  sql_render :: "jsval \<Rightarrow> string option option"
  sql_now :: nat

subsection \<open>Boolean(v), String(v), Number(v)\<close>

fun truthy :: "jsval \<Rightarrow> bool" where
  "truthy JUndefined = False"
| "truthy JNull = False"
| "truthy (JBool b) = b"
| "truthy (JNum NaN) = False"
| "truthy (JNum (Inf _)) = True"
| "truthy (JNum (Fin r)) = (r \<noteq> 0)"
| "truthy (JStr s) = (s \<noteq> [])"
| "truthy (JArr _) = True"
| "truthy (JObj _) = True"

fun join :: "string \<Rightarrow> string list \<Rightarrow> string" where
  "join sep [] = []"
| "join sep [x] = x"
| "join sep (x # y # ys) = x @ sep @ join sep (y # ys)"

fun num_to_string :: "runtime \<Rightarrow> jsnum \<Rightarrow> string" where
  "num_to_string rt NaN = ''NaN''"
| "num_to_string rt (Inf True) = ''Infinity''"
| "num_to_string rt (Inf False) = ''-Infinity''"
| "num_to_string rt (Fin r) = Number_toString rt r"

fun to_string :: "runtime \<Rightarrow> jsval \<Rightarrow> string" where
  "to_string rt JUndefined = ''undefined''"
| "to_string rt JNull = ''null''"
| "to_string rt (JBool b) = (if b then ''true'' else ''false'')"
| "to_string rt (JNum n) = num_to_string rt n"
| "to_string rt (JStr s) = s"
| "to_string rt (JArr xs) =
     join '','' (map (\<lambda>x. if x = JUndefined \<or> x = JNull then [] else to_string rt x) xs)"
| "to_string rt (JObj _) = ''[object Object]''"

definition is_ws :: "char \<Rightarrow> bool" where
  "is_ws c = (of_char c \<in> {9, 10, 11, 12, 13, 32 :: nat})"

definition trim :: "string \<Rightarrow> string" where
  "trim s = rev (dropWhile is_ws (rev (dropWhile is_ws s)))"

definition is_digit :: "char \<Rightarrow> bool" where
  "is_digit c = (48 \<le> (of_char c :: nat) \<and> (of_char c :: nat) \<le> 57)"

definition hex_val :: "char \<Rightarrow> nat option" where
  "hex_val c = (let n = (of_char c :: nat) in
     if 48 \<le> n \<and> n \<le> 57 then Some (n - 48)
     else if 97 \<le> n \<and> n \<le> 102 then Some (n - 87)
     else if 65 \<le> n \<and> n \<le> 70 then Some (n - 55)
     else None)"

text \<open>The value of a digit string in a radix; \<open>None\<close> when a character is not a digit of it.\<close>

fun radix_value :: "nat \<Rightarrow> nat \<Rightarrow> string \<Rightarrow> nat option" where
  "radix_value b acc [] = Some acc"
| "radix_value b acc (c # cs) =
     (case hex_val c of
        None \<Rightarrow> None
      | Some d \<Rightarrow> if d < b then radix_value b (acc * b + d) cs else None)"

definition digits_value :: "nat \<Rightarrow> string \<Rightarrow> nat option" where
  "digits_value b s = (if s = [] then None else radix_value b 0 s)"

definition decimal_digits :: "string \<Rightarrow> nat" where
  "decimal_digits s = foldl (\<lambda>acc c. acc * 10 + (of_char c - 48)) 0 s"

text \<open>A literal beyond the binary64 range converts to an infinity.\<close>

definition overflow :: "rat \<Rightarrow> jsnum" where
  "overflow r =
     (if 2 ^ 1024 - 2 ^ 970 \<le> r then Inf True
      else if r \<le> - (2 ^ 1024 - 2 ^ 970) then Inf False
      else Fin r)"

definition exponent_part :: "string \<Rightarrow> int option" where
  "exponent_part s =
     (case s of
        [] \<Rightarrow> Some 0
      | c # cs \<Rightarrow>
          if c = CHR ''e'' \<or> c = CHR ''E'' then
            (case cs of
               [] \<Rightarrow> None
             | d # ds \<Rightarrow>
                 if d = CHR ''-'' then map_option (\<lambda>n. - int n) (digits_value 10 ds)
                 else if d = CHR ''+'' then map_option int (digits_value 10 ds)
                 else map_option int (digits_value 10 cs))
          else None)"

definition unsigned_decimal :: "string \<Rightarrow> rat option" where
  "unsigned_decimal s =
     (let ip = takeWhile is_digit s;
          r1 = dropWhile is_digit s;
          dot = (r1 \<noteq> [] \<and> hd r1 = CHR ''.'');
          fp = (if dot then takeWhile is_digit (tl r1) else []);
          r2 = (if dot then dropWhile is_digit (tl r1) else r1)
      in if ip = [] \<and> fp = [] then None
         else case exponent_part r2 of
                None \<Rightarrow> None
              | Some e \<Rightarrow>
                  Some ((of_nat (decimal_digits ip)
                          + of_nat (decimal_digits fp) / 10 ^ length fp)
                        * (if 0 \<le> e then 10 ^ nat e else 1 / 10 ^ nat (- e))))"

definition string_to_number :: "string \<Rightarrow> jsnum" where
  "string_to_number s =
     (let t = trim s in
      if t = [] then Fin 0
      else if take 2 t = ''0x'' \<or> take 2 t = ''0X'' then
        (case digits_value 16 (drop 2 t) of None \<Rightarrow> NaN | Some n \<Rightarrow> overflow (of_nat n))
      else if take 2 t = ''0o'' \<or> take 2 t = ''0O'' then
        (case digits_value 8 (drop 2 t) of None \<Rightarrow> NaN | Some n \<Rightarrow> overflow (of_nat n))
      else if take 2 t = ''0b'' \<or> take 2 t = ''0B'' then
        (case digits_value 2 (drop 2 t) of None \<Rightarrow> NaN | Some n \<Rightarrow> overflow (of_nat n))
      else
        (let neg = (hd t = CHR ''-'');
             u = (if hd t = CHR ''-'' \<or> hd t = CHR ''+'' then tl t else t)
         in if u = ''Infinity'' then Inf (\<not> neg)
            else case unsigned_decimal u of
                   None \<Rightarrow> NaN
                 | Some r \<Rightarrow> overflow (if neg then - r else r)))"

fun to_number :: "runtime \<Rightarrow> jsval \<Rightarrow> jsnum" where
  "to_number rt JUndefined = NaN"
| "to_number rt JNull = Fin 0"
| "to_number rt (JBool b) = Fin (if b then 1 else 0)"
| "to_number rt (JNum n) = n"
| "to_number rt (JStr s) = string_to_number s"
| "to_number rt (JArr xs) = string_to_number (to_string rt (JArr xs))"
| "to_number rt (JObj kv) = string_to_number (to_string rt (JObj kv))"

fun isNaN :: "jsnum \<Rightarrow> bool" where
  "isNaN NaN = True"
| "isNaN _ = False"

fun isFinite :: "jsnum \<Rightarrow> bool" where
  "isFinite (Fin _) = True"
| "isFinite _ = False"


section \<open>Secret codec (utils/encryption.js)\<close>

text \<open>
  \<open>Buffer.from(s).toString('base64')\<close> and \<open>Buffer.from(s, 'base64')\<close>: the standard
  alphabet with padding on output; on input the decoder skips what is not in the alphabet
  (it also reads the URL-safe \<open>-\<close> and \<open>_\<close>) and stops at the padding.
\<close>

definition b64_char :: "nat \<Rightarrow> char" where
  "b64_char i =
     (if i < 26 then char_of (65 + i)
      else if i < 52 then char_of (71 + i)
      else if i < 62 then char_of (i - 4)
      else if i = 62 then CHR ''+''
      else CHR ''/'')"

definition b64_index :: "char \<Rightarrow> nat option" where
  "b64_index c = (let n = (of_char c :: nat) in
     if 65 \<le> n \<and> n \<le> 90 then Some (n - 65)
     else if 97 \<le> n \<and> n \<le> 122 then Some (n - 71)
     else if 48 \<le> n \<and> n \<le> 57 then Some (n + 4)
     else if c = CHR ''+'' \<or> c = CHR ''-'' then Some 62
     else if c = CHR ''/'' \<or> c = CHR ''_'' then Some 63
     else None)"

fun base64_encode :: "string \<Rightarrow> string" where
  "base64_encode [] = []"
| "base64_encode [a] =
     (let n = of_char a * 65536
      in [b64_char (n div 262144), b64_char (n div 4096 mod 64), CHR ''='', CHR ''=''])"
| "base64_encode [a, b] =
     (let n = of_char a * 65536 + of_char b * 256
      in [b64_char (n div 262144), b64_char (n div 4096 mod 64), b64_char (n div 64 mod 64),
          CHR ''=''])"
| "base64_encode (a # b # c # rest) =
     (let n = of_char a * 65536 + of_char b * 256 + of_char c
      in [b64_char (n div 262144), b64_char (n div 4096 mod 64), b64_char (n div 64 mod 64),
          b64_char (n mod 64)] @ base64_encode rest)"

fun sextets_to_bytes :: "nat list \<Rightarrow> string" where
  "sextets_to_bytes (a # b # c # d # rest) =
     (let n = a * 262144 + b * 4096 + c * 64 + d
      in [char_of (n div 65536), char_of (n div 256 mod 256), char_of (n mod 256)]
         @ sextets_to_bytes rest)"
| "sextets_to_bytes [a, b, c] =
     (let n = a * 262144 + b * 4096 + c * 64
      in [char_of (n div 65536), char_of (n div 256 mod 256)])"
| "sextets_to_bytes [a, b] = [char_of ((a * 262144 + b * 4096) div 65536)]"
| "sextets_to_bytes _ = []"

definition base64_decode :: "string \<Rightarrow> string" where
  "base64_decode s =
     sextets_to_bytes (List.map_filter b64_index (takeWhile (\<lambda>c. c \<noteq> CHR ''='') s))"

text \<open>\<open>buf.toString('hex')\<close> and \<open>Buffer.from(s, 'hex')\<close> (which stops at the first pair
  that is not two hex digits).\<close>

definition hex_digit :: "nat \<Rightarrow> char" where
  "hex_digit i = (if i < 10 then char_of (48 + i) else char_of (87 + i))"

fun hex_encode :: "string \<Rightarrow> string" where
  "hex_encode [] = []"
| "hex_encode (c # cs) =
     hex_digit (of_char c div 16) # hex_digit (of_char c mod 16) # hex_encode cs"

fun hex_decode :: "string \<Rightarrow> string" where
  "hex_decode (a # b # rest) =
     (case (hex_val a, hex_val b) of
        (Some x, Some y) \<Rightarrow> char_of (16 * x + y) # hex_decode rest
      | _ \<Rightarrow> [])"
| "hex_decode _ = []"

text \<open>\<open>s.split(sep)\<close> for a separator of one character.\<close>

fun split_on :: "char \<Rightarrow> string \<Rightarrow> string list" where
  "split_on sep [] = [[]]"
| "split_on sep (c # cs) =
     (if c = sep then [] # split_on sep cs
      else (case split_on sep cs of [] \<Rightarrow> [[c]] | p # ps \<Rightarrow> (c # p) # ps))"

definition ivLength :: nat where
  "ivLength = 16"

definition secretKey :: "runtime \<Rightarrow> string" where
  "secretKey rt =
     (case ENCRYPTION_KEY rt of
        None \<Rightarrow> ''your-default-32-char-key-here-12345''
      | Some k \<Rightarrow> if k = [] then ''your-default-32-char-key-here-12345'' else k)"

definition normalizeKey :: "string \<Rightarrow> string" where
  "normalizeKey key =
     (if key = [] then ''default-32-character-encryption-key!!''
      else if length key < 32 then key @ replicate (32 - length key) CHR ''0''
      else if length key > 32 then take 32 key
      else key)"

text \<open>
  \<open>createCipheriv\<close> and \<open>createDecipheriv\<close> throw unless the key has 32 bytes; the
  \<open>catch\<close> of \<open>encrypt\<close> then returns the text, the \<open>catch\<close> of \<open>decrypt\<close> the stored value.
  Every other failure of the decipher (nonce, tag, authentication) is \<open>gcm_decrypt\<close>
  returning \<open>None\<close>.
\<close>

definition encrypt :: "runtime \<Rightarrow> string \<Rightarrow> string" where
  "encrypt rt text =
     (if text = [] then []
      else
        let normalizedKey = normalizeKey (secretKey rt);
            iv = randomBytes rt ivLength
        in if length normalizedKey \<noteq> 32 then text
           else
             let (encrypted, authTag) = gcm_encrypt rt normalizedKey iv text
             in hex_encode iv @ '':'' @ hex_encode authTag @ '':'' @ hex_encode encrypted)"

definition decrypt :: "runtime \<Rightarrow> string \<Rightarrow> string" where
  "decrypt rt encryptedText =
     (if encryptedText = [] then []
      else if CHR '':'' \<notin> set encryptedText \<or> length (split_on CHR '':'' encryptedText) \<noteq> 3
      then encryptedText
      else
        let textParts = split_on CHR '':'' encryptedText;
            iv = hex_decode (textParts ! 0);
            authTag = hex_decode (textParts ! 1);
            encrypted = textParts ! 2;
            normalizedKey = normalizeKey (secretKey rt)
        in if length normalizedKey \<noteq> 32 then encryptedText
           else
             (case gcm_decrypt rt normalizedKey iv authTag (hex_decode encrypted) of
                None \<Rightarrow> encryptedText
              | Some decrypted \<Rightarrow> decrypted))"

definition simpleEncrypt :: "string \<Rightarrow> string" where
  "simpleEncrypt text = (if text = [] then [] else base64_encode text)"

definition simpleDecrypt :: "string \<Rightarrow> string" where
  "simpleDecrypt encryptedText =
     (if encryptedText = [] then [] else base64_decode encryptedText)"


section \<open>Settings module (routes/settings.js): helpers\<close>

definition useSimpleEncryption :: bool where
  "useSimpleEncryption = True"

subsection \<open>Generators and masks\<close>

definition chars :: string where
  "chars = ''ABCDEFGHIJKLMNOPQRSTUVWXYZabcdefghijklmnopqrstuvwxyz0123456789''"

text \<open>\<open>s.charAt(i)\<close>: the empty string outside the string.\<close>

definition charAt :: "string \<Rightarrow> int \<Rightarrow> string" where
  "charAt s i = (if 0 \<le> i \<and> nat i < length s then [s ! nat i] else [])"

fun num_less :: "jsnum \<Rightarrow> jsnum \<Rightarrow> bool" where
  "num_less (Fin a) (Fin b) = (a < b)"
| "num_less (Fin a) (Inf pos) = pos"
| "num_less (Inf pos) (Fin b) = (\<not> pos)"
| "num_less (Inf p) (Inf q) = (\<not> p \<and> q)"
| "num_less _ _ = False"

fun num_le :: "jsnum \<Rightarrow> jsnum \<Rightarrow> bool" where
  "num_le (Fin a) (Fin b) = (a \<le> b)"
| "num_le (Fin a) (Inf pos) = pos"
| "num_le (Inf pos) (Fin b) = (\<not> pos)"
| "num_le (Inf p) (Inf q) = (\<not> p \<or> q)"
| "num_le _ _ = False"

text \<open>
  The loop of \<open>generateRandomString\<close>: \<open>for (let i = 0; i < safeLength; i++)\<close>, where
  \<open>rnd i\<close> is what the \<open>i\<close>-th call of \<open>Math.random()\<close> returns. With an infinite
  \<open>safeLength\<close> the loop does not end: the result is \<open>None\<close>.
\<close>

partial_function (option) random_loop ::
  "(nat \<Rightarrow> rat) \<Rightarrow> jsnum \<Rightarrow> nat \<Rightarrow> string \<Rightarrow> string option" where
  "random_loop rnd safeLength i result =
     (if num_less (Fin (of_nat i)) safeLength
      then random_loop rnd safeLength (i + 1)
             (result @ charAt chars \<lfloor>rnd i * of_nat (length chars)\<rfloor>)
      else Some result)"

definition generateRandomString :: "runtime \<Rightarrow> (nat \<Rightarrow> rat) \<Rightarrow> jsval \<Rightarrow> string option" where
  "generateRandomString rt rnd len =
     (let n = to_number rt (if len = JUndefined then JNum (Fin 24) else len);
          safeLength = (if truthy (JNum n) then n else Fin 24)
      in if num_le safeLength (Fin 0) then Some []
         else random_loop rnd safeLength 0 [])"

definition generateAlphanumericString :: "runtime \<Rightarrow> nat \<Rightarrow> string" where
  "generateAlphanumericString rt len =
     (let bytes = randomBytes rt len
      in concat (map (\<lambda>i. if i < length bytes
                            then [chars ! (of_char (bytes ! i) mod length chars)]
                            else ''undefined'')
                     [0..<len]))"

definition generateWebhookSecret :: "runtime \<Rightarrow> string" where
  "generateWebhookSecret rt = ''whsec_'' @ generateAlphanumericString rt 32"


definition generateApiKey :: "runtime \<Rightarrow> (nat \<Rightarrow> rat) \<Rightarrow> jsval \<Rightarrow> string option" where
  "generateApiKey rt rnd prefix =
     (case generateRandomString rt rnd (JNum (Fin 24)) of
        None \<Rightarrow> None
      | Some randomString \<Rightarrow>
          Some (to_string rt (if prefix = JUndefined then JStr ''pk'' else prefix)
                @ ''_'' @ randomString))"

definition maskApiKey :: "jsval \<Rightarrow> string" where
  "maskApiKey apiKey =
     (case apiKey of
        JStr s \<Rightarrow>
          if s = [] then ''...''
          else
            let parts = split_on CHR ''_'' s in
            if length parts < 2 then ''...''
            else
              let prefix = hd parts;
                  key = join ''_'' (tl parts)
              in if length key \<le> 6 then prefix @ ''_...''
                 else prefix @ ''_...'' @ drop (length key - 6) key
      | _ \<Rightarrow> ''...'')"

subsection \<open>Settings rows, storage and validation\<close>

text \<open>A row of \<open>system_settings\<close>. Text columns hold a string or NULL.\<close>

record setting =
  sid :: nat
  setting_key :: string
  setting_category :: string
  setting_name :: string
  setting_value :: "string option"
  data_type :: string
  input_type :: string
  options :: "string option"
  is_encrypted :: bool
  is_required :: bool
  is_active :: bool
  sort_order :: "string option"
  description :: "string option"
  extra_config :: "string option"
  updated_at :: nat

text \<open>\<open>processSettingValue\<close>, on a value read from the \<open>setting_value\<close> column.\<close>

definition processSettingValue :: "runtime \<Rightarrow> setting \<Rightarrow> string option \<Rightarrow> string option" where
  "processSettingValue rt setting value =
     (case value of
        None \<Rightarrow> None
      | Some v \<Rightarrow>
          if is_encrypted setting \<and> v \<noteq> [] then
            (if useSimpleEncryption then Some (simpleDecrypt v) else Some (decrypt rt v))
          else Some v)"

text \<open>
  \<open>prepareValueForStorage\<close>, on a value of the request body. \<open>None\<close> is an exception:
  \<open>Buffer.from\<close> in \<open>simpleEncrypt\<close> throws a TypeError on a number or a boolean, and
  on an array or an object does what the platform says. \<open>encrypt\<close> catches what its
  cipher throws on a value that is not a string and returns the value.
\<close>

definition prepareValueForStorage :: "runtime \<Rightarrow> setting \<Rightarrow> jsval \<Rightarrow> jsval option" where
  "prepareValueForStorage rt setting value =
     (if is_encrypted setting \<and> truthy value then
        (if useSimpleEncryption then
           (case value of
              JStr s \<Rightarrow> Some (JStr (simpleEncrypt s))
            | JArr _ \<Rightarrow> map_option (\<lambda>b. JStr (base64_encode b)) (Buffer_from_object rt value)
            | JObj _ \<Rightarrow> map_option (\<lambda>b. JStr (base64_encode b)) (Buffer_from_object rt value)
            | _ \<Rightarrow> None)
         else
           (case value of
              JStr s \<Rightarrow> Some (JStr (encrypt rt s))
            | _ \<Rightarrow> Some value))
      else Some value)"

definition is_lower_alnum_underscore :: "char \<Rightarrow> bool" where
  "is_lower_alnum_underscore c = (let n = (of_char c :: nat) in
     (97 \<le> n \<and> n \<le> 122) \<or> (48 \<le> n \<and> n \<le> 57) \<or> c = CHR ''_'')"

definition validateSettingKey :: "jsval \<Rightarrow> bool" where
  "validateSettingKey key =
     (case key of
        JStr s \<Rightarrow> s \<noteq> [] \<and> list_all is_lower_alnum_underscore s
      | _ \<Rightarrow> False)"

text \<open>The result \<open>{ valid, error }\<close> of \<open>validateSettingValue\<close>.\<close>

datatype validation = Valid | Invalid string

definition validateSettingValue :: "runtime \<Rightarrow> setting \<Rightarrow> jsval \<Rightarrow> validation" where
  "validateSettingValue rt setting value =
     (if is_required setting \<and> (value = JUndefined \<or> value = JNull \<or> value = JStr [])
      then Invalid (setting_name setting @ '' is required'')
      else if data_type setting = ''string'' then Valid
      else if data_type setting = ''number'' then
        (if isNaN (to_number rt value)
         then Invalid (setting_name setting @ '' must be a number'')
         else Valid)
      else if data_type setting = ''boolean'' then
        (if (case value of JBool _ \<Rightarrow> False | _ \<Rightarrow> True)
            \<and> to_string rt value \<notin> set [''true'', ''false'', ''0'', ''1'']
         then Invalid (setting_name setting @ '' must be true or false'')
         else Valid)
      else if data_type setting = ''json'' then
        (case JSON_parse rt (to_string rt value) of
           Some _ \<Rightarrow> Valid
         | None \<Rightarrow> Invalid (setting_name setting @ '' must be valid JSON''))
      else Valid)"


section \<open>The database and its driver\<close>

record history =
  h_setting_id :: nat
  h_old_value :: "string option"
  h_new_value :: "string option"
  h_changed_by :: "string option"
  h_change_reason :: "string option"

record api_key_row =
  ak_id :: nat
  ak_key_name :: "string option"
  ak_api_key :: "string option"
  ak_key_prefix :: "string option"
  ak_permissions :: "string option"
  ak_expires_at :: "string option"
  ak_description :: "string option"
  ak_is_active :: bool
  ak_created_at :: nat

record webhook_row =
  wh_id :: nat
  wh_url :: "string option"
  wh_events :: "string option"
  wh_secret :: "string option"
  wh_description :: "string option"
  wh_is_active :: bool
  wh_created_at :: nat

record db =
  system_settings :: "setting list"
  settings_history :: "history list"
  api_keys :: "api_key_row list"
  webhooks :: "webhook_row list"

text \<open>
  The world of one request: the committed tables, the working copy of the transaction
  the request's connection has open (if any), the number of connections the request holds
  from the pool, and for each awaited driver call to come whether it rejects.
\<close>

record world =
  committed :: db
  pending :: "db option"
  held :: nat
  faults :: "bool list"

definition next_fault :: "world \<Rightarrow> bool \<times> world" where
  "next_fault w =
     (case faults w of [] \<Rightarrow> (False, w) | f # fs \<Rightarrow> (f, w\<lparr>faults := fs\<rparr>))"

definition current :: "world \<Rightarrow> db" where
  "current w = (case pending w of None \<Rightarrow> committed w | Some d \<Rightarrow> d)"

definition store :: "db \<Rightarrow> world \<Rightarrow> world" where
  "store d w = (case pending w of None \<Rightarrow> w\<lparr>committed := d\<rparr> | Some _ \<Rightarrow> w\<lparr>pending := Some d\<rparr>)"

text \<open>Each call returns whether it resolved, and the world after it.\<close>

definition getConnection :: "world \<Rightarrow> bool \<times> world" where
  "getConnection w =
     (case next_fault w of
        (True, w1) \<Rightarrow> (False, w1)
      | (False, w1) \<Rightarrow> (True, w1\<lparr>held := held w1 + 1\<rparr>))"

definition release :: "world \<Rightarrow> world" where
  "release w = w\<lparr>held := held w - 1\<rparr>"

definition beginTransaction :: "world \<Rightarrow> bool \<times> world" where
  "beginTransaction w =
     (case next_fault w of
        (True, w1) \<Rightarrow> (False, w1)
      | (False, w1) \<Rightarrow> (True, w1\<lparr>pending := Some (current w1)\<rparr>))"

definition commit :: "world \<Rightarrow> bool \<times> world" where
  "commit w =
     (case next_fault w of
        (True, w1) \<Rightarrow> (False, w1)
      | (False, w1) \<Rightarrow> (True, w1\<lparr>committed := current w1, pending := None\<rparr>))"

definition rollback :: "world \<Rightarrow> bool \<times> world" where
  "rollback w =
     (case next_fault w of
        (True, w1) \<Rightarrow> (False, w1)
      | (False, w1) \<Rightarrow> (True, w1\<lparr>pending := None\<rparr>))"

text \<open>A reading statement, and a writing statement (\<open>None\<close>: the statement is rejected
  for a parameter the driver cannot render).\<close>

definition query_read :: "(db \<Rightarrow> 'a) \<Rightarrow> world \<Rightarrow> 'a option \<times> world" where
  "query_read f w =
     (case next_fault w of
        (True, w1) \<Rightarrow> (None, w1)
      | (False, w1) \<Rightarrow> (Some (f (current w1)), w1))"

definition query_write :: "(db \<Rightarrow> db option) \<Rightarrow> world \<Rightarrow> bool \<times> world" where
  "query_write f w =
     (case next_fault w of
        (True, w1) \<Rightarrow> (False, w1)
      | (False, w1) \<Rightarrow>
          (case f (current w1) of
             None \<Rightarrow> (False, w1)
           | Some d \<Rightarrow> (True, store d w1)))"

text \<open>A bound parameter as the text an SQL text column receives.\<close>

definition sql_text :: "runtime \<Rightarrow> jsval \<Rightarrow> string option option" where
  "sql_text rt v =
     (case v of
        JStr s \<Rightarrow> Some (Some s)
      | JNull \<Rightarrow> Some None
      | JUndefined \<Rightarrow> Some None
      | _ \<Rightarrow> sql_render rt v)"

definition required_text :: "runtime \<Rightarrow> jsval \<Rightarrow> string option" where
  "required_text rt v = (case sql_text rt v of Some (Some s) \<Rightarrow> Some s | _ \<Rightarrow> None)"

text \<open>\<open>WHERE id = ?\<close> with a path parameter: the rows whose id the decimal numeral
  denotes.\<close>

definition id_matches :: "string \<Rightarrow> nat \<Rightarrow> bool" where
  "id_matches param n = (digits_value 10 param = Some n)"

text \<open>\<open>WHERE setting_key = ?\<close>: comparison with the text of the parameter.\<close>

definition key_matches :: "runtime \<Rightarrow> jsval \<Rightarrow> setting \<Rightarrow> bool" where
  "key_matches rt key r = (sql_text rt key = Some (Some (setting_key r)))"

text \<open>\<open>SELECT ... FROM system_settings WHERE setting_key = ?\<close> with a parameter of
  the request body.\<close>

definition select_by_key :: "runtime \<Rightarrow> jsval \<Rightarrow> world \<Rightarrow> setting list option \<times> world" where
  "select_by_key rt key w =
     (case next_fault w of
        (True, w1) \<Rightarrow> (None, w1)
      | (False, w1) \<Rightarrow>
          (case sql_text rt key of
             None \<Rightarrow> (None, w1)
           | Some _ \<Rightarrow> (Some (filter (key_matches rt key) (system_settings (current w1))), w1)))"

definition next_id :: "nat list \<Rightarrow> nat" where
  "next_id ids = Suc (fold max ids 0)"

section \<open>Requests and responses\<close>

datatype response = Response (status: nat) (body: jsval)

text \<open>Destructuring a property out of a value: a TypeError (\<open>None\<close>) on
  \<open>undefined\<close> and \<open>null\<close>, \<open>undefined\<close> when the property is missing.\<close>

definition field :: "jsval \<Rightarrow> string \<Rightarrow> jsval option" where
  "field v k =
     (case v of
        JUndefined \<Rightarrow> None
      | JNull \<Rightarrow> None
      | JObj kv \<Rightarrow> Some (case map_of kv k of None \<Rightarrow> JUndefined | Some x \<Rightarrow> x)
      | _ \<Rightarrow> Some JUndefined)"

definition or_else :: "jsval \<Rightarrow> jsval \<Rightarrow> jsval" where
  "or_else v d = (if truthy v then v else d)"

definition default_to :: "jsval \<Rightarrow> jsval \<Rightarrow> jsval" where
  "default_to v d = (if v = JUndefined then d else v)"

definition text_json :: "string option \<Rightarrow> jsval" where
  "text_json t = (case t of None \<Rightarrow> JNull | Some s \<Rightarrow> JStr s)"

definition nat_json :: "nat \<Rightarrow> jsval" where
  "nat_json n = JNum (Fin (of_nat n))"

definition bool_json :: "bool \<Rightarrow> jsval" where
  "bool_json b = JNum (Fin (if b then 1 else 0))"

text \<open>\<open>{ ...obj, k: v }\<close>: the property is replaced where it stands, or added last.\<close>

fun obj_put :: "string \<Rightarrow> jsval \<Rightarrow> (string \<times> jsval) list \<Rightarrow> (string \<times> jsval) list" where
  "obj_put k v [] = [(k, v)]"
| "obj_put k v ((k', v') # kvs) =
     (if k' = k then (k, v) # kvs else (k', v') # obj_put k v kvs)"


text \<open>The body of the error responses; the \<open>error\<close> property (the message of the
  exception) is left out.\<close>

definition failure :: "nat \<Rightarrow> string \<Rightarrow> response" where
  "failure code message =
     Response code (JObj [(''success'', JBool False), (''message'', JStr message)])"


section \<open>Settings: fetch and update\<close>

definition setting_object :: "setting \<Rightarrow> (string \<times> jsval) list" where
  "setting_object r =
     [(''id'', nat_json (sid r)),
      (''setting_key'', JStr (setting_key r)),
      (''setting_category'', JStr (setting_category r)),
      (''setting_name'', JStr (setting_name r)),
      (''setting_value'', text_json (setting_value r)),
      (''data_type'', JStr (data_type r)),
      (''input_type'', JStr (input_type r)),
      (''options'', text_json (options r)),
      (''is_encrypted'', bool_json (is_encrypted r)),
      (''is_required'', bool_json (is_required r)),
      (''is_active'', bool_json (is_active r)),
      (''sort_order'', text_json (sort_order r)),
      (''description'', text_json (description r)),
      (''extra_config'', text_json (extra_config r)),
      (''updated_at'', nat_json (updated_at r))]"

text \<open>\<open>if (row.col) obj.col = JSON.parse(row.col)\<close>; \<open>None\<close> when the parser throws.\<close>

definition parse_column ::
  "runtime \<Rightarrow> string \<Rightarrow> string option \<Rightarrow> (string \<times> jsval) list \<Rightarrow> (string \<times> jsval) list option" where
  "parse_column rt k col obj =
     (case col of
        None \<Rightarrow> Some obj
      | Some s \<Rightarrow>
          if s = [] then Some obj
          else map_option (\<lambda>v. obj_put k v obj) (JSON_parse rt s))"

text \<open>The treatment of a fetched row: the value decrypted, \<open>options\<close> and
  \<open>extra_config\<close> parsed.\<close>

definition processed_setting :: "runtime \<Rightarrow> setting \<Rightarrow> (string \<times> jsval) list option" where
  "processed_setting rt row =
     (case parse_column rt ''options'' (options row)
             (obj_put ''setting_value''
                (text_json (processSettingValue rt row (setting_value row)))
                (setting_object row)) of
        None \<Rightarrow> None
      | Some obj \<Rightarrow> parse_column rt ''extra_config'' (extra_config row) obj)"

text \<open>\<open>router.get("/:id")\<close>.\<close>

definition get_setting_by_id :: "runtime \<Rightarrow> string \<Rightarrow> world \<Rightarrow> response \<times> world" where
  "get_setting_by_id rt settingId w =
     (case getConnection w of
        (False, w1) \<Rightarrow> (failure 500 ''Failed to fetch setting'', w1)
      | (True, w1) \<Rightarrow>
          (case query_read (\<lambda>d. filter (\<lambda>r. setting_key r = settingId) (system_settings d)) w1 of
             (None, w2) \<Rightarrow> (failure 500 ''Failed to fetch setting'', w2)
           | (Some rows, w2) \<Rightarrow>
               (case rows of
                  [] \<Rightarrow> (failure 404 ''Setting not found'', release w2)
                | setting # _ \<Rightarrow>
                    (case processed_setting rt setting of
                       None \<Rightarrow> (failure 500 ''Failed to fetch setting'', release w2)
                     | Some obj \<Rightarrow>
                         (Response 200 (JObj [(''success'', JBool True), (''data'', JObj obj)]),
                          release w2)))))"

text \<open>\<open>req.user?.id || 'system'\<close>.\<close>

definition user_id :: "jsval \<Rightarrow> jsval" where
  "user_id user =
     or_else (case field user ''id'' of None \<Rightarrow> JUndefined | Some v \<Rightarrow> v) (JStr ''system'')"

text \<open>The inner \<open>catch\<close> of the transactional handlers: roll back, release, rethrow to
  the outer \<open>catch\<close>, which answers 500. When the rollback itself rejects, the release is
  not reached.\<close>

definition rollback_release :: "string \<Rightarrow> world \<Rightarrow> response \<times> world" where
  "rollback_release message w =
     (case rollback w of
        (False, w1) \<Rightarrow> (failure 500 message, w1)
      | (True, w1) \<Rightarrow> (failure 500 message, release w1))"

definition set_value :: "(nat \<Rightarrow> bool) \<Rightarrow> string option \<Rightarrow> nat \<Rightarrow> db \<Rightarrow> db" where
  "set_value id_is v now d =
     d\<lparr>system_settings :=
         map (\<lambda>r. if id_is (sid r) then r\<lparr>setting_value := v, updated_at := now\<rparr> else r)
           (system_settings d)\<rparr>"

text \<open>\<open>UPDATE system_settings SET setting_value = ?, updated_at = NOW() WHERE id = ?\<close>.\<close>

definition update_statement :: "runtime \<Rightarrow> (nat \<Rightarrow> bool) \<Rightarrow> jsval \<Rightarrow> db \<Rightarrow> db option" where
  "update_statement rt id_is newValue d =
     map_option (\<lambda>v. set_value id_is v (sql_now rt) d) (sql_text rt newValue)"

text \<open>\<open>INSERT INTO settings_history (setting_id, old_value, new_value, changed_by,
  change_reason) VALUES (?, ?, ?, ?, ?)\<close>.\<close>

definition insert_history ::
  "runtime \<Rightarrow> nat option \<Rightarrow> string option \<Rightarrow> jsval \<Rightarrow> jsval \<Rightarrow> jsval \<Rightarrow> db \<Rightarrow> db option" where
  "insert_history rt settingId oldValue newValue userId reason d =
     (case (settingId, sql_text rt newValue, sql_text rt userId, sql_text rt reason) of
        (Some i, Some nv, Some u, Some cr) \<Rightarrow>
          Some (d\<lparr>settings_history := settings_history d
                  @ [\<lparr>h_setting_id = i, h_old_value = oldValue, h_new_value = nv,
                      h_changed_by = u, h_change_reason = cr\<rparr>]\<rparr>)
      | _ \<Rightarrow> None)"

text \<open>
  The \<open>try\<close> block that \<open>router.put("/:id")\<close> and \<open>router.put("/key/:key")\<close> run
  after \<open>beginTransaction\<close>. The two handlers differ in the SELECT (\<open>select\<close>), in the
  id the UPDATE and the INSERT receive (\<open>id_is\<close>, \<open>hist_id\<close>: the path parameter, or
  the id of the row read) and in the id they answer (\<open>id_json\<close>).
\<close>

definition update_setting_tx ::
  "runtime \<Rightarrow> (db \<Rightarrow> setting list) \<Rightarrow> (setting \<Rightarrow> nat \<Rightarrow> bool) \<Rightarrow> (setting \<Rightarrow> nat option)
    \<Rightarrow> (setting \<Rightarrow> jsval) \<Rightarrow> jsval \<Rightarrow> jsval \<Rightarrow> jsval \<Rightarrow> world \<Rightarrow> response \<times> world" where
  "update_setting_tx rt select id_is hist_id id_json value change_reason userId w =
     (case query_read select w of
        (None, w1) \<Rightarrow> rollback_release ''Failed to update setting'' w1
      | (Some [], w1) \<Rightarrow>
          (case rollback w1 of
             (False, w2) \<Rightarrow> rollback_release ''Failed to update setting'' w2
           | (True, w2) \<Rightarrow> (failure 404 ''Setting not found'', release w2))
      | (Some (currentSetting # _), w1) \<Rightarrow>
          (let oldValue = setting_value currentSetting in
           case prepareValueForStorage rt currentSetting value of
             None \<Rightarrow> rollback_release ''Failed to update setting'' w1
           | Some newValue \<Rightarrow>
               (case query_write (update_statement rt (id_is currentSetting) newValue) w1 of
                  (False, w2) \<Rightarrow> rollback_release ''Failed to update setting'' w2
                | (True, w2) \<Rightarrow>
                    (case query_write
                            (insert_history rt (hist_id currentSetting) oldValue newValue userId
                               (or_else change_reason (JStr ''Updated via API''))) w2 of
                       (False, w3) \<Rightarrow> rollback_release ''Failed to update setting'' w3
                     | (True, w3) \<Rightarrow>
                         (case commit w3 of
                            (False, w4) \<Rightarrow> rollback_release ''Failed to update setting'' w4
                          | (True, w4) \<Rightarrow>
                              (Response 200
                                 (JObj [(''success'', JBool True),
                                        (''message'', JStr ''Setting updated successfully''),
                                        (''data'', JObj
                                           [(''id'', id_json currentSetting),
                                            (''setting_key'', JStr (setting_key currentSetting)),
                                            (''old_value'',
                                               text_json (processSettingValue rt currentSetting oldValue)),
                                            (''new_value'', value)])]),
                               release w4))))))"

text \<open>\<open>router.put("/:id")\<close>: the request is the path parameter, the body and
  \<open>req.user\<close>.\<close>

definition put_setting_by_id ::
  "runtime \<Rightarrow> string \<Rightarrow> jsval \<Rightarrow> jsval \<Rightarrow> world \<Rightarrow> response \<times> world" where
  "put_setting_by_id rt settingId req_body user w =
     (case (field req_body ''setting_value'', field req_body ''change_reason'') of
        (Some value, Some change_reason) \<Rightarrow>
          if value = JUndefined then (failure 400 ''Setting value is required'', w)
          else
            (case getConnection w of
               (False, w1) \<Rightarrow> (failure 500 ''Failed to update setting'', w1)
             | (True, w1) \<Rightarrow>
                 (case beginTransaction w1 of
                    (False, w2) \<Rightarrow> (failure 500 ''Failed to update setting'', w2)
                  | (True, w2) \<Rightarrow>
                      update_setting_tx rt
                        (\<lambda>d. filter (\<lambda>r. id_matches settingId (sid r)) (system_settings d))
                        (\<lambda>cs. id_matches settingId)
                        (\<lambda>cs. digits_value 10 settingId)
                        (\<lambda>cs. JStr settingId)
                        value change_reason (user_id user) w2))
      | _ \<Rightarrow> (failure 500 ''Failed to update setting'', w))"

text \<open>\<open>router.put("/key/:key")\<close>.\<close>

definition put_setting_by_key ::
  "runtime \<Rightarrow> string \<Rightarrow> jsval \<Rightarrow> jsval \<Rightarrow> world \<Rightarrow> response \<times> world" where
  "put_setting_by_key rt settingKey req_body user w =
     (case (field req_body ''setting_value'', field req_body ''change_reason'') of
        (Some value, Some change_reason) \<Rightarrow>
          if value = JUndefined then (failure 400 ''Setting value is required'', w)
          else
            (case getConnection w of
               (False, w1) \<Rightarrow> (failure 500 ''Failed to update setting'', w1)
             | (True, w1) \<Rightarrow>
                 (case beginTransaction w1 of
                    (False, w2) \<Rightarrow> (failure 500 ''Failed to update setting'', w2)
                  | (True, w2) \<Rightarrow>
                      update_setting_tx rt
                        (\<lambda>d. filter (\<lambda>r. setting_key r = settingKey) (system_settings d))
                        (\<lambda>cs n. n = sid cs)
                        (\<lambda>cs. Some (sid cs))
                        (\<lambda>cs. nat_json (sid cs))
                        value change_reason (user_id user) w2))
      | _ \<Rightarrow> (failure 500 ''Failed to update setting'', w))"


section \<open>Settings: bulk update\<close>




section \<open>Settings: create\<close>

text \<open>The INSERT of \<open>router.post("/")\<close>; \<open>None\<close> when a parameter is rejected.\<close>

definition insert_setting :: "runtime \<Rightarrow> jsval \<Rightarrow> db \<Rightarrow> db option" where
  "insert_setting rt req_body d =
     (let get = (\<lambda>k. case field req_body k of None \<Rightarrow> JUndefined | Some v \<Rightarrow> v);
          optionsJson = (if truthy (get ''options'')
                         then JStr (JSON_stringify rt (get ''options'')) else JNull);
          extraConfigJson = (if truthy (get ''extra_config'')
                             then JStr (JSON_stringify rt (get ''extra_config'')) else JNull)
      in case (required_text rt (get ''setting_key''),
               required_text rt (get ''setting_category''),
               required_text rt (get ''setting_name''),
               sql_text rt (or_else (get ''setting_value'') (JStr [])),
               required_text rt (or_else (get ''data_type'') (JStr ''string'')),
               required_text rt (or_else (get ''input_type'') (JStr ''text'')),
               sql_text rt optionsJson,
               sql_text rt (or_else (get ''sort_order'') (JNum (Fin 0))),
               sql_text rt (or_else (get ''description'') JNull),
               sql_text rt extraConfigJson) of
           (Some k, Some c, Some n, Some v, Some dt, Some it, Some opts, Some so, Some de, Some ec) \<Rightarrow>
             Some (d\<lparr>system_settings := system_settings d @
                    [\<lparr>sid = next_id (map sid (system_settings d)),
                      setting_key = k, setting_category = c, setting_name = n,
                      setting_value = v, data_type = dt, input_type = it, options = opts,
                      is_encrypted = truthy (or_else (get ''is_encrypted'') (JBool False)),
                      is_required = truthy (or_else (get ''is_required'') (JBool False)),
                      is_active = truthy (default_to (get ''is_active'') (JBool True)),
                      sort_order = so, description = de, extra_config = ec,
                      updated_at = sql_now rt\<rparr>]\<rparr>)
         | _ \<Rightarrow> None)"

text \<open>\<open>router.post("/")\<close>.\<close>

definition post_setting :: "runtime \<Rightarrow> jsval \<Rightarrow> world \<Rightarrow> response \<times> world" where
  "post_setting rt req_body w =
     (case (field req_body ''setting_key'', field req_body ''setting_category'',
            field req_body ''setting_name'') of
        (Some key, Some category, Some name) \<Rightarrow>
          if \<not> truthy key \<or> \<not> truthy category \<or> \<not> truthy name then
            (failure 400 ''setting_key, setting_category, and setting_name are required'', w)
          else
            (case getConnection w of
               (False, w1) \<Rightarrow> (failure 500 ''Failed to create setting'', w1)
             | (True, w1) \<Rightarrow>
                 (case select_by_key rt key w1 of
                    (None, w2) \<Rightarrow> (failure 500 ''Failed to create setting'', w2)
                  | (Some existingRows, w2) \<Rightarrow>
                      if existingRows \<noteq> [] then
                        (failure 409 ''Setting key already exists'', release w2)
                      else
                        (case query_write (insert_setting rt req_body) w2 of
                           (False, w3) \<Rightarrow> (failure 500 ''Failed to create setting'', w3)
                         | (True, w3) \<Rightarrow>
                             (Response 201
                                (JObj [(''success'', JBool True),
                                       (''message'', JStr ''Setting created successfully''),
                                       (''data'', JObj
                                          [(''id'', nat_json (next_id (map sid (system_settings (current w2))))),
                                           (''setting_key'', key),
                                           (''setting_category'', category),
                                           (''setting_name'', name)])]),
                              release w3))))
      | _ \<Rightarrow> (failure 500 ''Failed to create setting'', w))"


section \<open>API keys and webhooks\<close>




text \<open>\<open>router.post("/api-key/generate")\<close>. The result is \<open>None\<close> when the handler does
  not return. The key is what \<open>generateRandomString(prefix)\<close> returns.\<close>

definition post_api_key_generate ::
  "runtime \<Rightarrow> (nat \<Rightarrow> rat) \<Rightarrow> jsval \<Rightarrow> world \<Rightarrow> (response \<times> world) option" where
  "post_api_key_generate rt rnd req_body w =
     (case (field req_body ''key_name'', field req_body ''permissions'', field req_body ''prefix'',
            field req_body ''expires_in_days'', field req_body ''description'') of
        (Some key_name, Some permissions, Some prefix0, Some expires0, Some description0) \<Rightarrow>
          (let prefix = default_to prefix0 (JStr ''pk'');
               expires_in_days = default_to expires0 (JNum (Fin 365))
           in if \<not> truthy key_name then Some (failure 400 ''Key name is required'', w)
              else
                (case generateRandomString rt rnd prefix of
                   None \<Rightarrow> None
                 | Some apiKey \<Rightarrow>
                     (let expiresAt = (if truthy expires_in_days
                                       then JStr (Date_after_days rt expires_in_days) else JNull);
                          perms = or_else permissions (JArr [JStr ''read_access''])
                      in case getConnection w of
                           (False, w1) \<Rightarrow> Some (failure 500 ''Failed to generate API key'', w1)
                         | (True, w1) \<Rightarrow>
                             (case query_write
                                     (\<lambda>d. case (sql_text rt key_name, sql_text rt prefix,
                                                 sql_text rt (or_else description0 JNull)) of
                                            (Some n, Some p, Some de) \<Rightarrow>
                                              Some (d\<lparr>api_keys := api_keys d @
                                                [\<lparr>ak_id = next_id (map ak_id (api_keys d)),
                                                  ak_key_name = n,
                                                  ak_api_key = Some apiKey,
                                                  ak_key_prefix = p,
                                                  ak_permissions = Some (JSON_stringify rt perms),
                                                  ak_expires_at =
                                                    (case expiresAt of JStr t \<Rightarrow> Some t | _ \<Rightarrow> None),
                                                  ak_description = de,
                                                  ak_is_active = True,
                                                  ak_created_at = sql_now rt\<rparr>]\<rparr>)
                                          | _ \<Rightarrow> None) w1 of
                                (False, w2) \<Rightarrow> Some (failure 500 ''Failed to generate API key'', w2)
                              | (True, w2) \<Rightarrow>
                                  Some (Response 201
                                          (JObj [(''success'', JBool True),
                                                 (''message'', JStr ''API key generated successfully''),
                                                 (''data'', JObj
                                                    [(''id'', nat_json (next_id (map ak_id (api_keys (current w1))))),
                                                     (''key_name'', key_name),
                                                     (''api_key'', JStr apiKey),
                                                     (''masked_key'', JStr (maskApiKey (JStr apiKey))),
                                                     (''key_prefix'', prefix),
                                                     (''permissions'', perms),
                                                     (''expires_at'', expiresAt),
                                                     (''created_at'', JStr (Date_now_iso rt))]),
                                                 (''warning'',
                                                    JStr ''Save this API key now. It will not be shown again!'')]),
                                        release w2)))))
      | _ \<Rightarrow> Some (failure 500 ''Failed to generate API key'', w))"










section \<open>What an update of a value is to do\<close>

text \<open>
  The two writes of an update: the value of the rows the UPDATE selects is replaced, and
  one history row is appended. An update is committed when the table after the request is
  the table before it with both writes, for a setting the request selects, the value the
  handler prepared for storage, and a history row that records the setting and its old and
  new stored values.
\<close>

definition value_and_history :: "runtime \<Rightarrow> (nat \<Rightarrow> bool) \<Rightarrow> history \<Rightarrow> db \<Rightarrow> db" where
  "value_and_history rt id_is h d =
     d\<lparr>system_settings :=
         map (\<lambda>r. if id_is (sid r)
                   then r\<lparr>setting_value := h_new_value h, updated_at := sql_now rt\<rparr> else r)
           (system_settings d),
       settings_history := settings_history d @ [h]\<rparr>"

definition update_committed ::
  "runtime \<Rightarrow> (setting \<Rightarrow> bool) \<Rightarrow> (setting \<Rightarrow> nat \<Rightarrow> bool) \<Rightarrow> jsval \<Rightarrow> db \<Rightarrow> db \<Rightarrow> bool" where
  "update_committed rt selected id_is value before after \<longleftrightarrow>
     (\<exists>cs nv h.
        cs \<in> set (system_settings before) \<and> selected cs
        \<and> prepareValueForStorage rt cs value = Some nv
        \<and> sql_text rt nv = Some (h_new_value h)
        \<and> h_setting_id h = sid cs \<and> h_old_value h = setting_value cs
        \<and> after = value_and_history rt (id_is cs) h before)"

section \<open>What a bulk update is to do\<close>

text \<open>
  The bulk update in the words of its description: an item fails when its key or value
  is missing or no setting has the key; a failed item is reported with its key and the
  reason, an item that would succeed with its key and the id of its setting; applying an
  item is the update of the value and the insertion of its history row.
\<close>

definition property :: "jsval \<Rightarrow> string \<Rightarrow> jsval" where
  "property item k = (case field item k of None \<Rightarrow> JUndefined | Some v \<Rightarrow> v)"














section \<open>A platform for concrete runs\<close>

text \<open>
  A stand-in for the platform, on which the model is run on concrete inputs: integers
  print as decimal numerals, the JSON parser reads \<open>[]\<close> and the printer writes it, the
  cipher reverses the text and tags it with the start of the key, the driver renders
  booleans and integers.
\<close>

fun decimal :: "nat \<Rightarrow> string" where
  "decimal n =
     (if n < 10 then [char_of (48 + n)]
      else decimal (n div 10) @ [char_of (48 + n mod 10)])"

definition sample_number_string :: "rat \<Rightarrow> string" where
  "sample_number_string r =
     (if r < 0 then ''-'' @ decimal (nat \<lfloor>- r\<rfloor>) else decimal (nat \<lfloor>r\<rfloor>))"

definition sample_runtime :: runtime where
  "sample_runtime =
     \<lparr>Number_toString = sample_number_string,
      JSON_parse = (\<lambda>s. if s = ''[]'' then Some (JArr []) else None),
      JSON_stringify = (\<lambda>v. ''[]''),
      Buffer_from_object = (\<lambda>v. None),
      randomBytes = (\<lambda>n. replicate n (CHR ''A'')),
      gcm_encrypt = (\<lambda>k iv p. (rev p, take 16 k)),
      gcm_decrypt = (\<lambda>k iv t c. if t = take 16 k then Some (rev c) else None),
      ENCRYPTION_KEY = None,
      Date_now_iso = ''2024-01-01T00:00:00.000Z'',
      Date_after_days = (\<lambda>d. ''2025-01-01T00:00:00.000Z''),
      sql_render = (\<lambda>v. case v of
                            JBool b \<Rightarrow> Some (Some (if b then ''1'' else ''0''))
                          | JNum (Fin r) \<Rightarrow> Some (Some (sample_number_string r))
                          | _ \<Rightarrow> None),
      sql_now = 0\<rparr>"


text \<open>A database with two settings, one API key and one webhook, and a request's
  world before its first driver call.\<close>

definition site_name :: setting where
  "site_name =
     \<lparr>sid = 1, setting_key = ''site_name'', setting_category = ''general'',
      setting_name = ''Site name'', setting_value = Some ''Acme'', data_type = ''string'',
      input_type = ''text'', options = None, is_encrypted = False, is_required = False,
      is_active = True, sort_order = Some ''0'', description = None, extra_config = None,
      updated_at = 0\<rparr>"

definition enable_email :: setting where
  "enable_email =
     \<lparr>sid = 2, setting_key = ''enable_email'', setting_category = ''email'',
      setting_name = ''Enable email'', setting_value = Some ''true'', data_type = ''boolean'',
      input_type = ''checkbox'', options = None, is_encrypted = False, is_required = False,
      is_active = True, sort_order = Some ''0'', description = None, extra_config = None,
      updated_at = 0\<rparr>"

definition sample_key :: api_key_row where
  "sample_key =
     \<lparr>ak_id = 1, ak_key_name = Some ''ci'', ak_api_key = Some ''pk_ABCDEFGHIJKL'',
      ak_key_prefix = Some ''pk'', ak_permissions = Some ''[]'', ak_expires_at = None,
      ak_description = None, ak_is_active = True, ak_created_at = 0\<rparr>"

definition sample_webhook :: webhook_row where
  "sample_webhook =
     \<lparr>wh_id = 1, wh_url = Some ''https://example.org/hook'', wh_events = Some ''[]'',
      wh_secret = Some ''whsec_0123456789'', wh_description = None, wh_is_active = True,
      wh_created_at = 0\<rparr>"

definition sample_db :: db where
  "sample_db =
     \<lparr>system_settings = [site_name, enable_email], settings_history = [],
      api_keys = [sample_key], webhooks = [sample_webhook]\<rparr>"

definition idle :: "db \<Rightarrow> bool list \<Rightarrow> world" where
  "idle d fs = \<lparr>committed = d, pending = None, held = 0, faults = fs\<rparr>"




section \<open>Facts about the driver\<close>

lemma status_failure [simp]: "status (failure code message) = code"
  by (simp add: failure_def)

lemma current_simps:
  "current (w\<lparr>faults := fs\<rparr>) = current w"
  "current (w\<lparr>held := h\<rparr>) = current w"
  by (simp_all add: current_def split: option.split)

lemmas driver_defs = getConnection_def release_def beginTransaction_def commit_def rollback_def
  query_read_def query_write_def next_fault_def current_def store_def idle_def select_by_key_def
  rollback_release_def

lemma next_fault_effect:
  "next_fault w = (f, w1) \<Longrightarrow>
     committed w1 = committed w \<and> pending w1 = pending w \<and> held w1 = held w
     \<and> current w1 = current w"
  by (auto simp: next_fault_def current_simps split: list.splits)

lemma query_read_effect:
  assumes "query_read f w = (res, w1)"
  shows "committed w1 = committed w \<and> pending w1 = pending w \<and> held w1 = held w
         \<and> (res = None \<or> res = Some (f (current w)))"
  using assms
  by (auto simp: query_read_def dest!: next_fault_effect split: prod.splits bool.splits)

lemma query_write_effect:
  assumes "query_write f w = (ok, w1)" "pending w = Some d"
  shows "committed w1 = committed w \<and> held w1 = held w
         \<and> (if ok then (\<exists>d1. f d = Some d1 \<and> pending w1 = Some d1) else pending w1 = Some d)"
  using assms
  by (auto simp: query_write_def current_def store_def dest!: next_fault_effect
      split: prod.splits bool.splits option.splits)

lemma commit_effect:
  assumes "commit w = (ok, w1)" "pending w = Some d"
  shows "held w1 = held w
         \<and> (if ok then committed w1 = d \<and> pending w1 = None
             else committed w1 = committed w \<and> pending w1 = Some d)"
  using assms
  by (auto simp: commit_def current_def dest!: next_fault_effect split: prod.splits bool.splits)

lemma rollback_effect:
  assumes "rollback w = (ok, w1)"
  shows "committed w1 = committed w \<and> held w1 = held w
         \<and> (if ok then pending w1 = None else pending w1 = pending w)"
  using assms
  by (auto simp: rollback_def dest!: next_fault_effect split: prod.splits bool.splits)

lemma release_effect [simp]:
  "committed (release w) = committed w" "pending (release w) = pending w"
  "held (release w) = held w - 1"
  by (simp_all add: release_def)

lemma rollback_release_effect:
  assumes "rollback_release message w = (r, w1)"
  shows "status r = 500 \<and> committed w1 = committed w"
  using assms
  by (auto simp: rollback_release_def dest!: rollback_effect split: prod.splits bool.splits)

lemma beginTransaction_effect:
  assumes "beginTransaction w = (ok, w1)" "pending w = None"
  shows "committed w1 = committed w \<and> held w1 = held w
         \<and> (if ok then pending w1 = Some (committed w) else pending w1 = None)"
  using assms
  by (auto simp: beginTransaction_def current_def dest!: next_fault_effect split: prod.splits bool.splits)

lemma getConnection_effect:
  assumes "getConnection w = (ok, w1)"
  shows "committed w1 = committed w \<and> pending w1 = pending w
         \<and> held w1 = (if ok then held w + 1 else held w)"
  using assms
  by (auto simp: getConnection_def dest!: next_fault_effect split: prod.splits bool.splits)

section \<open>The codecs invert\<close>

lemma b64_index_char: "i < 64 \<Longrightarrow> b64_index (b64_char i) = Some i"
  by (auto simp: b64_index_def b64_char_def Let_def)

lemma b64_char_not_pad: "i < 64 \<Longrightarrow> b64_char i \<noteq> CHR ''=''"
  using b64_index_char [of i] by (auto simp: b64_index_def)

lemma sextets_recombine:
  fixes n :: nat
  shows "n div 262144 * 262144 + n div 4096 mod 64 * 4096 + n div 64 mod 64 * 64 + n mod 64 = n"
proof -
  define q1 where "q1 = n div 64"
  define q2 where "q2 = q1 div 64"
  define q3 where "q3 = q2 div 64"
  have e2: "n div 4096 = q2" unfolding q2_def q1_def by (simp add: div_mult2_eq)
  have e3: "n div 262144 = q3" unfolding q3_def q2_def q1_def by (simp add: div_mult2_eq)
  have a: "n = q1 * 64 + n mod 64" unfolding q1_def by simp
  have b: "q1 = q2 * 64 + q1 mod 64" unfolding q2_def by simp
  have c: "q2 = q3 * 64 + q2 mod 64" unfolding q3_def by simp
  have "q3 * 262144 + q2 mod 64 * 4096 + q1 mod 64 * 64 + n mod 64 = n"
    using a b c by linarith
  then show ?thesis unfolding e2 e3 q1_def[symmetric] .
qed

lemma bytes_high:
  fixes a b c :: nat
  assumes "b < 256" "c < 256"
  shows "(a * 65536 + b * 256 + c) div 65536 = a"
  using assms by simp

lemma bytes_mid:
  fixes a b c :: nat
  assumes "b < 256" "c < 256"
  shows "(a * 65536 + b * 256 + c) div 256 mod 256 = b"
proof -
  have "(a * 65536 + b * 256 + c) div 256 = a * 256 + b" using assms by simp
  then show ?thesis using assms by simp
qed

lemma bytes_low:
  fixes a b c :: nat
  assumes "c < 256"
  shows "(a * 65536 + b * 256 + c) mod 256 = c"
proof -
  have "a * 65536 + b * 256 + c = (a * 256 + b) * 256 + c" by simp
  then show ?thesis using assms by (metis mod_mult_self3 mod_less)
qed

lemma one_byte_sextets:
  fixes x :: nat
  shows "(x * 65536) div 64 mod 64 = 0" "(x * 65536) mod 64 = 0"
proof -
  have "x * 65536 = (x * 1024) * 64" by simp
  then show "(x * 65536) mod 64 = 0" by (metis mod_mult_self2_is_0)
  have "(x * 65536) div 64 = (x * 16) * 64" by simp
  then show "(x * 65536) div 64 mod 64 = 0" by (metis mod_mult_self2_is_0)
qed

lemma two_byte_sextets:
  fixes x y :: nat
  shows "(x * 65536 + y * 256) mod 64 = 0"
proof -
  have "x * 65536 + y * 256 = (x * 1024 + y * 4) * 64" by simp
  then show ?thesis by (metis mod_mult_self2_is_0)
qed

lemma decode_group:
  assumes "n < 16777216"
  shows "List.map_filter b64_index
           (takeWhile (\<lambda>c. c \<noteq> CHR ''='')
              ([b64_char (n div 262144), b64_char (n div 4096 mod 64),
                b64_char (n div 64 mod 64), b64_char (n mod 64)] @ rest))
         = [n div 262144, n div 4096 mod 64, n div 64 mod 64, n mod 64]
           @ List.map_filter b64_index (takeWhile (\<lambda>c. c \<noteq> CHR ''='') rest)"
proof -
  have l: "n div 262144 < 64" using assms by simp
  show ?thesis
    using l by (simp add: b64_char_not_pad b64_index_char List.map_filter_simps)
qed

lemma base64_one: "base64_decode (base64_encode [a]) = [a]"
proof -
  define n where "n = (of_char a :: nat) * 65536"
  have lt: "n < 16777216" using nat_of_char_less_256[of a] by (simp add: n_def)
  have l: "n div 262144 < 64" using lt by simp
  have z: "n div 64 mod 64 = 0" "n mod 64 = 0" unfolding n_def by (rule one_byte_sextets)+
  with sextets_recombine[of n]
  have r: "n div 262144 * 262144 + n div 4096 mod 64 * 4096 = n" by simp
  have e: "base64_encode [a]
           = [b64_char (n div 262144), b64_char (n div 4096 mod 64), CHR ''='', CHR ''='']"
    by (simp add: n_def Let_def)
  have "base64_decode (base64_encode [a]) = [char_of (n div 65536)]"
    unfolding e base64_decode_def
    using l by (simp add: b64_char_not_pad b64_index_char List.map_filter_simps r)
  then show ?thesis by (simp add: n_def)
qed

lemma base64_two: "base64_decode (base64_encode [a, b]) = [a, b]"
proof -
  define n where "n = (of_char a :: nat) * 65536 + of_char b * 256"
  have lt: "n < 16777216"
    unfolding n_def using nat_of_char_less_256[of a] nat_of_char_less_256[of b] by linarith
  have l: "n div 262144 < 64" using lt by simp
  have z: "n mod 64 = 0" unfolding n_def by (rule two_byte_sextets)
  with sextets_recombine[of n]
  have r: "n div 262144 * 262144 + n div 4096 mod 64 * 4096 + n div 64 mod 64 * 64 = n"
    by simp
  have e: "base64_encode [a, b]
           = [b64_char (n div 262144), b64_char (n div 4096 mod 64),
              b64_char (n div 64 mod 64), CHR ''='']"
    by (simp add: n_def Let_def)
  have "base64_decode (base64_encode [a, b])
        = [char_of (n div 65536), char_of (n div 256 mod 256)]"
    unfolding e base64_decode_def
    using l by (simp add: b64_char_not_pad b64_index_char List.map_filter_simps r)
  moreover have "n div 65536 = of_char a" "n div 256 mod 256 = of_char b"
    using bytes_high[of "of_char b" 0 "of_char a"] bytes_mid[of "of_char b" 0 "of_char a"]
      nat_of_char_less_256[of b] by (simp_all add: n_def)
  ultimately show ?thesis by simp
qed

lemma base64_three:
  "base64_decode (base64_encode (a # b # c # rest))
   = a # b # c # base64_decode (base64_encode rest)"
proof -
  define n where "n = (of_char a :: nat) * 65536 + of_char b * 256 + of_char c"
  have lt: "n < 16777216"
    unfolding n_def
    using nat_of_char_less_256[of a] nat_of_char_less_256[of b] nat_of_char_less_256[of c]
    by linarith
  have enc: "base64_encode (a # b # c # rest)
             = [b64_char (n div 262144), b64_char (n div 4096 mod 64),
                b64_char (n div 64 mod 64), b64_char (n mod 64)] @ base64_encode rest"
    by (simp add: n_def Let_def)
  have "base64_decode (base64_encode (a # b # c # rest))
        = [char_of (n div 65536), char_of (n div 256 mod 256), char_of (n mod 256)]
          @ base64_decode (base64_encode rest)"
    unfolding enc base64_decode_def decode_group[OF lt]
    by (simp add: Let_def sextets_recombine)
  moreover have "n div 65536 = of_char a" "n div 256 mod 256 = of_char b" "n mod 256 = of_char c"
    using bytes_high[of "of_char b" "of_char c" "of_char a"]
      bytes_mid[of "of_char b" "of_char c" "of_char a"]
      bytes_low[of "of_char c" "of_char a" "of_char b"]
      nat_of_char_less_256[of b] nat_of_char_less_256[of c] by (simp_all add: n_def)
  ultimately show ?thesis by simp
qed

lemma base64_roundtrip: "base64_decode (base64_encode s) = s"
proof (induction s rule: base64_encode.induct)
  case 1
  show ?case by (simp add: base64_decode_def List.map_filter_simps)
next
  case (2 a)
  show ?case by (rule base64_one)
next
  case (3 a b)
  show ?case by (rule base64_two)
next
  case (4 a b c rest)
  then show ?case by (simp only: base64_three)
qed

lemma base64_encode_empty: "base64_encode s = [] \<longleftrightarrow> s = []"
  by (induction s rule: base64_encode.induct) (auto simp: Let_def)

lemma simple_roundtrip: "simpleDecrypt (simpleEncrypt p) = p"
  by (simp add: simpleDecrypt_def simpleEncrypt_def base64_encode_empty base64_roundtrip)

lemma hex_val_digit: "i < 16 \<Longrightarrow> hex_val (hex_digit i) = Some i"
  by (auto simp: hex_val_def hex_digit_def Let_def)

lemma hex_digit_not_colon: "i < 16 \<Longrightarrow> hex_digit i \<noteq> CHR '':''"
  using hex_val_digit [of i] by (auto simp: hex_val_def)

lemma hex_roundtrip: "hex_decode (hex_encode s) = s"
proof (induction s)
  case Nil
  show ?case by simp
next
  case (Cons c cs)
  have a: "(of_char c :: nat) div 16 < 16" using nat_of_char_less_256[of c] by arith
  have b: "(of_char c :: nat) mod 16 < 16" by simp
  have "16 * ((of_char c :: nat) div 16) + of_char c mod 16 = of_char c" by simp
  then show ?case using Cons by (simp add: hex_val_digit[OF a] hex_val_digit[OF b])
qed

lemma hex_no_colon: "CHR '':'' \<notin> set (hex_encode s)"
proof (induction s)
  case Nil
  show ?case by simp
next
  case (Cons c cs)
  have a: "(of_char c :: nat) div 16 < 16" using nat_of_char_less_256[of c] by arith
  have b: "(of_char c :: nat) mod 16 < 16" by simp
  show ?case using Cons hex_digit_not_colon[OF a] hex_digit_not_colon[OF b] by auto
qed

lemma split_on_none: "sep \<notin> set a \<Longrightarrow> split_on sep a = [a]"
  by (induction a) auto

lemma split_on_first: "sep \<notin> set a \<Longrightarrow> split_on sep (a @ sep # r) = a # split_on sep r"
  by (induction a) auto

lemma split_three:
  assumes "sep \<notin> set a" "sep \<notin> set b" "sep \<notin> set c"
  shows "split_on sep (a @ [sep] @ b @ [sep] @ c) = [a, b, c]"
  using assms by (simp add: split_on_first split_on_none)

lemma decrypt_encrypt:
  assumes gcm: "\<And>k iv t. length k = 32 \<Longrightarrow>
      gcm_decrypt rt k iv (snd (gcm_encrypt rt k iv t)) (fst (gcm_encrypt rt k iv t)) = Some t"
  shows "decrypt rt (encrypt rt p) = p"
proof (cases "p = []")
  case True
  then show ?thesis by (simp add: encrypt_def decrypt_def)
next
  case False
  define k where "k = normalizeKey (secretKey rt)"
  show ?thesis
  proof (cases "length k = 32")
    case False
    with \<open>p \<noteq> []\<close> have "encrypt rt p = p" by (simp add: encrypt_def k_def Let_def)
    moreover have "decrypt rt p = p" using False \<open>p \<noteq> []\<close>
      by (simp add: decrypt_def k_def Let_def)
    ultimately show ?thesis by simp
  next
    case True
    define iv where "iv = randomBytes rt ivLength"
    define ct where "ct = fst (gcm_encrypt rt k iv p)"
    define tag where "tag = snd (gcm_encrypt rt k iv p)"
    have e: "encrypt rt p
             = hex_encode iv @ [CHR '':''] @ hex_encode tag @ [CHR '':''] @ hex_encode ct"
      using True \<open>p \<noteq> []\<close>
      by (simp add: encrypt_def k_def[symmetric] iv_def[symmetric] ct_def tag_def Let_def
          split: prod.split)
    have sp: "split_on CHR '':'' (encrypt rt p) = [hex_encode iv, hex_encode tag, hex_encode ct]"
      unfolding e by (rule split_three) (rule hex_no_colon)+
    have ne: "encrypt rt p \<noteq> []" "CHR '':'' \<in> set (encrypt rt p)" unfolding e by simp_all
    have "decrypt rt (encrypt rt p)
          = (case gcm_decrypt rt k iv tag ct of None \<Rightarrow> encrypt rt p | Some d \<Rightarrow> d)"
      using True ne by (simp add: decrypt_def sp k_def[symmetric] Let_def hex_roundtrip)
    also have "gcm_decrypt rt k iv tag ct = Some p"
      unfolding ct_def tag_def by (rule gcm[OF True])
    finally show ?thesis by simp
  qed
qed

lemma sample_gcm:
  "gcm_decrypt sample_runtime k iv (snd (gcm_encrypt sample_runtime k iv t))
     (fst (gcm_encrypt sample_runtime k iv t)) = Some t"
  by (simp add: sample_runtime_def)

text \<open>
  C8. For every plaintext \<open>p\<close>, \<open>decrypt (encrypt p) = p\<close> in the authenticated mode and
  \<open>simpleDecrypt (simpleEncrypt p) = p\<close> in the fallback mode. The authenticated mode
  rests on the cipher of the platform: opening what it sealed, under a key of 32 bytes and
  the same nonce, gives the text back. When the key is rejected both directions pass the
  text through, and the round trip holds as well.
\<close>

theorem codec_roundtrip:
  assumes "\<forall>k iv t. length k = 32 \<longrightarrow>
      gcm_decrypt rt k iv (snd (gcm_encrypt rt k iv t)) (fst (gcm_encrypt rt k iv t)) = Some t"
  shows "decrypt rt (encrypt rt p) = p \<and> simpleDecrypt (simpleEncrypt p) = p"
  using assms by (simp add: decrypt_encrypt simple_roundtrip)

theorem codec_roundtrip_witness:
  "decrypt sample_runtime (encrypt sample_runtime ''hi'') = ''hi''
   \<and> simpleDecrypt (simpleEncrypt ''hi'') = ''hi''
   \<and> simpleEncrypt ''hi'' = ''aGk=''"
proof -
  have "simpleEncrypt ''hi'' = ''aGk=''"
    by (simp add: simpleEncrypt_def b64_char_def Let_def char_of_eq_iff take_bit_eq_mod)
  then show ?thesis
    using codec_roundtrip [of sample_runtime "''hi''"] sample_gcm by simp
qed


section \<open>Fetching a setting by id\<close>

text \<open>
  C5. \<open>GET /settings/:id\<close> is to fetch the setting whose id is the path parameter.
  The handler compares the parameter with the \<open>setting_key\<close> column: in a table whose
  setting with id 1 has the key \<open>site_name\<close>, the request for \<open>1\<close> is answered 404 and
  the request for \<open>site_name\<close> is answered with that setting.
\<close>

theorem get_setting_by_id_reads_key:
  "filter (\<lambda>r. id_matches ''1'' (sid r)) (system_settings sample_db) = [site_name]
   \<and> status (fst (get_setting_by_id sample_runtime ''1'' (idle sample_db []))) = 404
   \<and> status (fst (get_setting_by_id sample_runtime ''site_name'' (idle sample_db []))) = 200"
proof -
  have "filter (\<lambda>r. id_matches ''1'' (sid r)) (system_settings sample_db) = [site_name]"
    by (simp add: sample_db_def site_name_def enable_email_def id_matches_def digits_value_def
        hex_val_def)
  moreover have "status (fst (get_setting_by_id sample_runtime ''1'' (idle sample_db []))) = 404"
    by (simp add: get_setting_by_id_def driver_defs sample_db_def site_name_def enable_email_def)
  moreover have
    "status (fst (get_setting_by_id sample_runtime ''site_name'' (idle sample_db []))) = 200"
    by (simp add: get_setting_by_id_def driver_defs sample_db_def site_name_def enable_email_def
        processed_setting_def parse_column_def)
  ultimately show ?thesis by simp
qed

section \<open>Connections held after a request\<close>

text \<open>
  C6. Every handler is to release its connection on every exit path. When the SELECT of
  \<open>GET /settings/:id\<close> rejects, the handler answers 500 and still holds the connection;
  so does \<open>PUT /settings/:id\<close> when \<open>beginTransaction\<close> rejects.
\<close>

theorem rejected_query_leaks_connection:
  "status (fst (get_setting_by_id rt settingId (idle d [False, True]))) = 500
   \<and> held (snd (get_setting_by_id rt settingId (idle d [False, True]))) = 1
   \<and> held (snd (put_setting_by_id rt settingId (JObj [(''setting_value'', JStr ''x'')]) user
                   (idle d [False, True]))) = 1"
  by (simp add: get_setting_by_id_def put_setting_by_id_def driver_defs field_def)

section \<open>Generated API keys\<close>

lemma random_loop_finite:
  "i \<le> n \<Longrightarrow> random_loop rnd (Fin (of_nat n)) i acc
     = Some (acc @ concat (map (\<lambda>j. charAt chars \<lfloor>rnd j * of_nat (length chars)\<rfloor>) [i..<n]))"
proof (induction "n - i" arbitrary: i acc)
  case 0
  then have "i = n" by simp
  then show ?case by (subst random_loop.simps) simp
next
  case (Suc k)
  then have lt: "i < n" and k: "k = n - (i + 1)" and le: "i + 1 \<le> n" by simp_all
  have "random_loop rnd (Fin (of_nat n)) i acc
        = random_loop rnd (Fin (of_nat n)) (i + 1)
            (acc @ charAt chars \<lfloor>rnd i * of_nat (length chars)\<rfloor>)"
    using lt by (subst random_loop.simps) simp
  also have "\<dots> = Some ((acc @ charAt chars \<lfloor>rnd i * of_nat (length chars)\<rfloor>)
        @ concat (map (\<lambda>j. charAt chars \<lfloor>rnd j * of_nat (length chars)\<rfloor>) [i + 1..<n]))"
    using Suc.hyps(1)[OF k le] .
  finally show ?case using lt by (simp add: upt_conv_Cons)
qed

lemma number_of_pk: "string_to_number ''pk'' = NaN"
  by (simp add: string_to_number_def trim_def is_ws_def unsigned_decimal_def is_digit_def Let_def)

lemma generateRandomString_pk:
  "generateRandomString rt rnd (JStr ''pk'')
   = Some (concat (map (\<lambda>j. charAt chars \<lfloor>rnd j * of_nat (length chars)\<rfloor>) [0..<24]))"
  using random_loop_finite[of 0 24 rnd "[]"]
  by (simp add: generateRandomString_def number_of_pk Let_def)

lemma charAt_chars_no_underscore: "CHR ''_'' \<notin> set (charAt chars i)"
  by (auto simp: charAt_def chars_def nth_Cons')

lemma length_concat_charAt:
  "length (concat (map (\<lambda>j. charAt chars (f j)) xs)) \<le> length xs"
  by (induction xs) (auto simp: charAt_def)

lemma generateRandomString_zero:
  "generateRandomString sample_runtime (\<lambda>i. 0) (JStr ''pk'') = Some ''AAAAAAAAAAAAAAAAAAAAAAAA''"
  by (simp add: generateRandomString_pk charAt_def chars_def upt_rec)

text \<open>
  C4. The key that \<open>POST /settings/api-key/generate\<close> returns and stores is to be the
  prefix, an underscore and 24 random characters of a strong random source. The handler
  calls \<open>generateRandomString(prefix)\<close>: for the prefix \<open>pk\<close> the key is at most 24
  characters of the alphabet chosen by \<open>Math.random\<close>, with no underscore in it, and it
  is the same whatever \<open>crypto.randomBytes\<close> yields. With \<open>Math.random\<close> returning 0 the
  request \<open>{key_name: "ci"}\<close> is answered 201 with the key \<open>AAAAAAAAAAAAAAAAAAAAAAAA\<close>,
  masked as \<open>...\<close>, and that key is stored.
\<close>

theorem generated_key_has_no_prefix:
  "(\<exists>key. generateRandomString rt rnd (JStr ''pk'') = Some key
      \<and> generateRandomString (rt\<lparr>randomBytes := other\<rparr>) rnd (JStr ''pk'') = Some key
      \<and> CHR ''_'' \<notin> set key \<and> length key \<le> 24)
   \<and> (case post_api_key_generate sample_runtime (\<lambda>i. 0) (JObj [(''key_name'', JStr ''ci'')])
              (idle sample_db []) of
         None \<Rightarrow> False
       | Some (r, w) \<Rightarrow>
           status r = 201
           \<and> map ak_api_key (api_keys (committed w))
               = [Some ''pk_ABCDEFGHIJKL'', Some ''AAAAAAAAAAAAAAAAAAAAAAAA'']
           \<and> (case field (body r) ''data'' of
                 None \<Rightarrow> False
               | Some dat \<Rightarrow>
                   field dat ''api_key'' = Some (JStr ''AAAAAAAAAAAAAAAAAAAAAAAA'')
                   \<and> field dat ''masked_key'' = Some (JStr ''...'')))"
proof -
  define key where
    "key = concat (map (\<lambda>j. charAt chars \<lfloor>rnd j * of_nat (length chars)\<rfloor>) [0..<24])"
  have "length key \<le> 24"
    unfolding key_def
    using length_concat_charAt[of "\<lambda>j. \<lfloor>rnd j * of_nat (length chars)\<rfloor>" "[0..<24]"] by simp
  moreover have "CHR ''_'' \<notin> set key"
    unfolding key_def using charAt_chars_no_underscore by auto
  ultimately have general:
    "\<exists>key. generateRandomString rt rnd (JStr ''pk'') = Some key
      \<and> generateRandomString (rt\<lparr>randomBytes := other\<rparr>) rnd (JStr ''pk'') = Some key
      \<and> CHR ''_'' \<notin> set key \<and> length key \<le> 24"
    unfolding generateRandomString_pk key_def by blast
  have masked: "maskApiKey (JStr ''AAAAAAAAAAAAAAAAAAAAAAAA'') = ''...''"
    by (simp add: maskApiKey_def)
  have run:
    "(case post_api_key_generate sample_runtime (\<lambda>i. 0) (JObj [(''key_name'', JStr ''ci'')])
              (idle sample_db []) of
         None \<Rightarrow> False
       | Some (r, w) \<Rightarrow>
           status r = 201
           \<and> map ak_api_key (api_keys (committed w))
               = [Some ''pk_ABCDEFGHIJKL'', Some ''AAAAAAAAAAAAAAAAAAAAAAAA'']
           \<and> (case field (body r) ''data'' of
                 None \<Rightarrow> False
               | Some dat \<Rightarrow>
                   field dat ''api_key'' = Some (JStr ''AAAAAAAAAAAAAAAAAAAAAAAA'')
                   \<and> field dat ''masked_key'' = Some (JStr ''...'')))"
    by (simp add: post_api_key_generate_def field_def default_to_def generateRandomString_zero
        Let_def driver_defs sample_db_def sample_key_def or_else_def sql_text_def masked)
  from general run show ?thesis by blast
qed


section \<open>Validation of a value\<close>

lemma number_of_Infinity: "string_to_number ''Infinity'' = Inf True"
  by (simp add: string_to_number_def trim_def is_ws_def Let_def)

lemma number_of_abc: "string_to_number ''abc'' = NaN"
  by (simp add: string_to_number_def trim_def is_ws_def unsigned_decimal_def is_digit_def Let_def)

lemma number_of_12_5: "string_to_number ''12.5'' = Fin (25 / 2)"
  by (simp add: string_to_number_def trim_def is_ws_def unsigned_decimal_def is_digit_def Let_def
      exponent_part_def decimal_digits_def overflow_def)

text \<open>
  C7, as stated, makes a number-typed value valid if and only if it parses as a finite
  number. The validator tests \<open>isNaN(Number(value))\<close>: the text \<open>Infinity\<close> converts to
  an infinity, which is not NaN, and is valid.
\<close>

theorem infinity_is_valid_counterexample:
  "validateSettingValue sample_runtime (site_name\<lparr>data_type := ''number''\<rparr>) (JStr ''Infinity'')
     = Valid
   \<and> \<not> isFinite (to_number sample_runtime (JStr ''Infinity''))"
  by (simp add: validateSettingValue_def number_of_Infinity site_name_def)

text \<open>
  C7, amended. A value is valid for a setting if and only if it is not a missing or empty
  value of a required setting, and, for the data type \<open>number\<close>, \<open>Number(value)\<close> is not
  NaN (the infinities are valid); for \<open>boolean\<close>, the value is a boolean or
  \<open>String(value)\<close> is one of \<open>true\<close>, \<open>false\<close>, \<open>0\<close>, \<open>1\<close>; for \<open>json\<close>,
  \<open>JSON.parse\<close> accepts \<open>String(value)\<close>. The type \<open>string\<close> and unknown types add no
  condition.
\<close>

theorem validateSettingValue_decides:
  "validateSettingValue rt s v = Valid \<longleftrightarrow>
     \<not> (is_required s \<and> (v = JUndefined \<or> v = JNull \<or> v = JStr []))
     \<and> (data_type s = ''number'' \<longrightarrow> \<not> isNaN (to_number rt v))
     \<and> (data_type s = ''boolean'' \<longrightarrow>
          (\<exists>b. v = JBool b) \<or> to_string rt v \<in> {''true'', ''false'', ''0'', ''1''})
     \<and> (data_type s = ''json'' \<longrightarrow> JSON_parse rt (to_string rt v) \<noteq> None)"
  by (cases v) (auto simp: validateSettingValue_def split: option.splits)

theorem validateSettingValue_decides_witness:
  "validateSettingValue sample_runtime (site_name\<lparr>data_type := ''number''\<rparr>) (JStr ''12.5'') = Valid
   \<and> validateSettingValue sample_runtime (site_name\<lparr>data_type := ''number''\<rparr>) (JStr ''abc'')
       \<noteq> Valid
   \<and> validateSettingValue sample_runtime (site_name\<lparr>data_type := ''boolean''\<rparr>) (JStr ''1'') = Valid
   \<and> validateSettingValue sample_runtime (site_name\<lparr>data_type := ''json''\<rparr>) (JStr ''{bad'')
       \<noteq> Valid
   \<and> validateSettingValue sample_runtime (site_name\<lparr>is_required := True\<rparr>) (JStr []) \<noteq> Valid"
  using validateSettingValue_decides
          [of sample_runtime "site_name\<lparr>data_type := ''number''\<rparr>" "JStr ''12.5''"]
    validateSettingValue_decides
          [of sample_runtime "site_name\<lparr>data_type := ''number''\<rparr>" "JStr ''abc''"]
    validateSettingValue_decides
          [of sample_runtime "site_name\<lparr>data_type := ''boolean''\<rparr>" "JStr ''1''"]
    validateSettingValue_decides
          [of sample_runtime "site_name\<lparr>data_type := ''json''\<rparr>" "JStr ''{bad''"]
    validateSettingValue_decides
          [of sample_runtime "site_name\<lparr>is_required := True\<rparr>" "JStr []"]
  by (simp add: number_of_12_5 number_of_abc site_name_def sample_runtime_def)

section \<open>Creating a setting whose key exists\<close>

lemma post_existing:
  assumes e: "existing \<in> set (system_settings (current w))"
      and k: "key_matches rt (property req_body ''setting_key'') existing"
  shows "committed (snd (post_setting rt req_body w)) = committed w"
    and "pending (snd (post_setting rt req_body w)) = pending w"
    and "truthy (property req_body ''setting_key'') \<and> truthy (property req_body ''setting_category'')
         \<and> truthy (property req_body ''setting_name'') \<and> faults w = []
         \<longrightarrow> status (fst (post_setting rt req_body w)) = 409
             \<and> held (snd (post_setting rt req_body w)) = held w"
    and "\<not> truthy (property req_body ''setting_category'')
         \<or> \<not> truthy (property req_body ''setting_name'')
         \<longrightarrow> status (fst (post_setting rt req_body w)) = 400"
proof -
  obtain body_fields where b: "req_body = JObj body_fields"
    using k by (cases req_body) (auto simp: key_matches_def property_def sql_text_def field_def)
  define key where "key = property req_body ''setting_key''"
  have f: "field req_body ''setting_key'' = Some key"
          "field req_body ''setting_category'' = Some (property req_body ''setting_category'')"
          "field req_body ''setting_name'' = Some (property req_body ''setting_name'')"
    by (simp_all add: b key_def property_def field_def)
  have st: "sql_text rt key \<noteq> None" using k by (auto simp: key_matches_def key_def)
  have ne: "filter (key_matches rt key) (system_settings (current w)) \<noteq> []"
    using e k by (auto simp: key_def filter_empty_conv)
  show "committed (snd (post_setting rt req_body w)) = committed w"
    using st ne
    by (auto simp: post_setting_def f key_def[symmetric] getConnection_def select_by_key_def
        next_fault_def release_def current_simps split: list.splits option.splits bool.splits)
  show "pending (snd (post_setting rt req_body w)) = pending w"
    using st ne
    by (auto simp: post_setting_def f key_def[symmetric] getConnection_def select_by_key_def
        next_fault_def release_def current_simps split: list.splits option.splits bool.splits)
  show "truthy (property req_body ''setting_key'') \<and> truthy (property req_body ''setting_category'')
         \<and> truthy (property req_body ''setting_name'') \<and> faults w = []
         \<longrightarrow> status (fst (post_setting rt req_body w)) = 409
             \<and> held (snd (post_setting rt req_body w)) = held w"
    using st ne
    by (auto simp: post_setting_def f key_def[symmetric] getConnection_def select_by_key_def
        next_fault_def release_def current_simps split: list.splits option.splits bool.splits)
  show "\<not> truthy (property req_body ''setting_category'')
         \<or> \<not> truthy (property req_body ''setting_name'')
         \<longrightarrow> status (fst (post_setting rt req_body w)) = 400"
    by (auto simp: post_setting_def f key_def[symmetric])
qed

lemma site_name_matches:
  "key_matches rt (property (JObj ((''setting_key'', JStr ''site_name'') # others)) ''setting_key'')
     site_name"
  by (simp add: key_matches_def property_def field_def sql_text_def site_name_def)

text \<open>
  C9, as stated, answers 409 to every request whose key exists. The handler checks the
  required fields first: the request \<open>{setting_key: "site_name"}\<close>, whose key exists, is
  answered 400.
\<close>

theorem existing_key_without_name_counterexample:
  "key_matches sample_runtime (property (JObj [(''setting_key'', JStr ''site_name'')]) ''setting_key'')
     site_name
   \<and> site_name \<in> set (system_settings (current (idle sample_db [])))
   \<and> status (fst (post_setting sample_runtime (JObj [(''setting_key'', JStr ''site_name'')])
                    (idle sample_db []))) = 400"
  by (simp add: site_name_matches post_setting_def field_def driver_defs sample_db_def)

text \<open>
  C9, amended. A request to \<open>POST /settings\<close> whose \<open>setting_key\<close> is the key of a
  setting writes nothing, whatever the driver does. It is answered 409, with its
  connection released, when \<open>setting_key\<close>, \<open>setting_category\<close> and \<open>setting_name\<close> are
  present and no driver call rejects; it is answered 400 when \<open>setting_category\<close> or
  \<open>setting_name\<close> is missing.
\<close>

theorem existing_key_is_not_written:
  assumes "existing \<in> set (system_settings (current w))"
      and "key_matches rt (property req_body ''setting_key'') existing"
  shows "committed (snd (post_setting rt req_body w)) = committed w
     \<and> pending (snd (post_setting rt req_body w)) = pending w
     \<and> (truthy (property req_body ''setting_key'') \<and> truthy (property req_body ''setting_category'')
         \<and> truthy (property req_body ''setting_name'') \<and> faults w = []
         \<longrightarrow> status (fst (post_setting rt req_body w)) = 409
             \<and> held (snd (post_setting rt req_body w)) = held w)
     \<and> (\<not> truthy (property req_body ''setting_category'')
         \<or> \<not> truthy (property req_body ''setting_name'')
         \<longrightarrow> status (fst (post_setting rt req_body w)) = 400)"
  using post_existing[OF assms] by blast

theorem existing_key_is_not_written_witness:
  "status (fst (post_setting sample_runtime
                  (JObj [(''setting_key'', JStr ''site_name''),
                         (''setting_category'', JStr ''general''),
                         (''setting_name'', JStr ''Site'')])
                  (idle sample_db []))) = 409
   \<and> committed (snd (post_setting sample_runtime
                  (JObj [(''setting_key'', JStr ''site_name''),
                         (''setting_category'', JStr ''general''),
                         (''setting_name'', JStr ''Site'')])
                  (idle sample_db []))) = sample_db"
proof -
  have m: "site_name \<in> set (system_settings (current (idle sample_db [])))"
    by (simp add: driver_defs sample_db_def)
  show ?thesis
    using existing_key_is_not_written [OF m site_name_matches, of sample_runtime
        "[(''setting_category'', JStr ''general''), (''setting_name'', JStr ''Site'')]"]
    by (simp add: property_def field_def idle_def)
qed


section \<open>Reads of API keys and webhooks\<close>














section \<open>Updates of a value are atomic\<close>

lemma update_setting_tx_atomic:
  assumes p: "pending w = Some d"
      and u: "update_setting_tx rt select id_is hist_id id_json value cr uid w = (r, w')"
  shows "(status r = 200 \<longrightarrow>
            (\<exists>cs rest nv d1.
               select d = cs # rest
               \<and> prepareValueForStorage rt cs value = Some nv
               \<and> update_statement rt (id_is cs) nv d = Some d1
               \<and> insert_history rt (hist_id cs) (setting_value cs) nv uid
                    (or_else cr (JStr ''Updated via API'')) d1 = Some (committed w')))
         \<and> (status r \<noteq> 200 \<longrightarrow> committed w' = committed w)"
proof -
  obtain res w1 where q: "query_read select w = (res, w1)" by force
  note e1 = query_read_effect[OF q]
  have cur: "current w = d" using p by (simp add: current_def)
  have p1: "pending w1 = Some d" using e1 p by simp
  show ?thesis
  proof (cases res)
    case None
    with u q have "rollback_release ''Failed to update setting'' w1 = (r, w')"
      by (simp add: update_setting_tx_def)
    from rollback_release_effect[OF this] e1 show ?thesis by simp
  next
    case (Some rows)
    with e1 cur have rows: "rows = select d" by simp
    show ?thesis
    proof (cases rows)
      case Nil
      obtain ok w2 where rb: "rollback w1 = (ok, w2)" by force
      note e2 = rollback_effect[OF rb]
      show ?thesis
      proof (cases ok)
        case True
        with u q Some Nil rb have "r = failure 404 ''Setting not found''" "w' = release w2"
          by (simp_all add: update_setting_tx_def)
        with e1 e2 show ?thesis by simp
      next
        case False
        with u q Some Nil rb have "rollback_release ''Failed to update setting'' w2 = (r, w')"
          by (simp add: update_setting_tx_def)
        from rollback_release_effect[OF this] e1 e2 show ?thesis by simp
      qed
    next
      case (Cons cs rest)
      show ?thesis
      proof (cases "prepareValueForStorage rt cs value")
        case None
        with u q Some Cons have "rollback_release ''Failed to update setting'' w1 = (r, w')"
          by (simp add: update_setting_tx_def)
        from rollback_release_effect[OF this] e1 show ?thesis by simp
      next
        case nv: (Some nv)
        obtain ok2 w2 where uq: "query_write (update_statement rt (id_is cs) nv) w1 = (ok2, w2)"
          by force
        note e2 = query_write_effect[OF uq p1]
        show ?thesis
        proof (cases ok2)
          case False
          with u q Some Cons nv uq
          have "rollback_release ''Failed to update setting'' w2 = (r, w')"
            by (simp add: update_setting_tx_def)
          from rollback_release_effect[OF this] e1 e2 show ?thesis by simp
        next
          case True
          with e2 obtain d1 where d1: "update_statement rt (id_is cs) nv d = Some d1"
            and p2: "pending w2 = Some d1" by auto
          obtain ok3 w3 where hq:
            "query_write (insert_history rt (hist_id cs) (setting_value cs) nv uid
                            (or_else cr (JStr ''Updated via API''))) w2 = (ok3, w3)"
            by force
          note e3 = query_write_effect[OF hq p2]
          show ?thesis
          proof (cases ok3)
            case False
            with u q Some Cons nv uq True hq
            have "rollback_release ''Failed to update setting'' w3 = (r, w')"
              by (simp add: update_setting_tx_def)
            from rollback_release_effect[OF this] e1 e2 e3 show ?thesis by simp
          next
            case ok3: True
            with e3 obtain d2 where d2:
              "insert_history rt (hist_id cs) (setting_value cs) nv uid
                 (or_else cr (JStr ''Updated via API'')) d1 = Some d2"
              and p3: "pending w3 = Some d2" by auto
            obtain ok4 w4 where cq: "commit w3 = (ok4, w4)" by force
            note e4 = commit_effect[OF cq p3]
            show ?thesis
            proof (cases ok4)
              case False
              with u q Some Cons nv uq True hq ok3 cq
              have "rollback_release ''Failed to update setting'' w4 = (r, w')"
                by (simp add: update_setting_tx_def)
              from rollback_release_effect[OF this] e1 e2 e3 e4 False show ?thesis by simp
            next
              case ok4: True
              with u q Some Cons nv uq True hq ok3 cq
              have "status r = 200" "w' = release w4"
                by (auto simp add: update_setting_tx_def)
              moreover have "select d = cs # rest" using rows Cons by simp
              ultimately show ?thesis using e4 ok4 d2 d1 nv by auto
            qed
          qed
        qed
      qed
    qed
  qed
qed


lemma two_writes:
  assumes "update_statement rt id_is nv d = Some d1"
      and "insert_history rt (Some i) old nv uid reason d1 = Some d2"
  shows "\<exists>h. sql_text rt nv = Some (h_new_value h) \<and> h_setting_id h = i \<and> h_old_value h = old
           \<and> d2 = value_and_history rt id_is h d"
proof -
  from assms obtain t u c where t: "sql_text rt nv = Some t"
    and d1: "d1 = set_value id_is t (sql_now rt) d"
    and d2: "d2 = d1\<lparr>settings_history := settings_history d1
                  @ [\<lparr>h_setting_id = i, h_old_value = old, h_new_value = t,
                      h_changed_by = u, h_change_reason = c\<rparr>]\<rparr>"
    by (auto simp: update_statement_def insert_history_def split: option.splits)
  show ?thesis
    by (rule exI[of _ "\<lparr>h_setting_id = i, h_old_value = old, h_new_value = t,
                         h_changed_by = u, h_change_reason = c\<rparr>"])
       (simp add: t d1 d2 value_and_history_def set_value_def)
qed

lemma put_setting_by_id_atomic:
  assumes p: "pending w = None"
      and u: "put_setting_by_id rt settingId req_body user w = (r, w')"
  shows "(status r \<noteq> 200 \<longrightarrow> committed w' = committed w)
       \<and> (status r = 200 \<longrightarrow>
            update_committed rt (\<lambda>cs. id_matches settingId (sid cs)) (\<lambda>cs. id_matches settingId)
              (property req_body ''setting_value'') (committed w) (committed w'))"
proof (cases "field req_body ''setting_value''")
  case None
  then have "req_body = JUndefined \<or> req_body = JNull"
    by (cases req_body) (auto simp: field_def)
  then have "r = failure 500 ''Failed to update setting''" "w' = w"
    using u by (auto simp: put_setting_by_id_def field_def)
  then show ?thesis by simp
next
  case (Some val)
  then have cr: "field req_body ''change_reason'' = Some (property req_body ''change_reason'')"
    and v: "property req_body ''setting_value'' = val"
    by (cases req_body; auto simp: field_def property_def)+
  show ?thesis
  proof (cases "val = JUndefined")
    case True
    then show ?thesis using u Some cr by (auto simp: put_setting_by_id_def)
  next
    case False
    obtain ok1 w1 where g: "getConnection w = (ok1, w1)" by force
    note e1 = getConnection_effect[OF g]
    show ?thesis
    proof (cases ok1)
      case False
      then show ?thesis using u Some cr \<open>val \<noteq> JUndefined\<close> g e1
        by (auto simp: put_setting_by_id_def)
    next
      case True
      obtain ok2 w2 where b: "beginTransaction w1 = (ok2, w2)" by force
      have p1: "pending w1 = None" using e1 p by simp
      note e2 = beginTransaction_effect[OF b p1]
      show ?thesis
      proof (cases ok2)
        case False
        then show ?thesis using u Some cr \<open>val \<noteq> JUndefined\<close> g True b e1 e2
          by (auto simp: put_setting_by_id_def)
      next
        case ok2: True
        then have p2: "pending w2 = Some (committed w)" using e2 e1 by simp
        have tx: "update_setting_tx rt
                    (\<lambda>d. filter (\<lambda>r. id_matches settingId (sid r)) (system_settings d))
                    (\<lambda>cs. id_matches settingId) (\<lambda>cs. digits_value 10 settingId)
                    (\<lambda>cs. JStr settingId) val (property req_body ''change_reason'')
                    (user_id user) w2 = (r, w')"
          using u Some cr \<open>val \<noteq> JUndefined\<close> g True b ok2
          by (simp add: put_setting_by_id_def)
        note a = update_setting_tx_atomic[OF p2 tx]
        have c2: "committed w2 = committed w" using e1 e2 by simp
        show ?thesis
        proof (intro conjI impI)
          assume "status r \<noteq> 200"
          with a c2 show "committed w' = committed w" by simp
        next
          assume "status r = 200"
          with a obtain cs rest nv d1 where
            sel: "filter (\<lambda>r. id_matches settingId (sid r)) (system_settings (committed w)) = cs # rest"
            and nv: "prepareValueForStorage rt cs val = Some nv"
            and d1: "update_statement rt (id_matches settingId) nv (committed w) = Some d1"
            and d2: "insert_history rt (digits_value 10 settingId) (setting_value cs) nv (user_id user)
                       (or_else (property req_body ''change_reason'') (JStr ''Updated via API'')) d1
                     = Some (committed w')"
            by blast
          from sel have "cs \<in> set (filter (\<lambda>r. id_matches settingId (sid r)) (system_settings (committed w)))"
            by simp
          then have mem: "cs \<in> set (system_settings (committed w))" "id_matches settingId (sid cs)"
            by simp_all
          then have dv: "digits_value 10 settingId = Some (sid cs)" by (simp add: id_matches_def)
          from two_writes[OF d1 d2[unfolded dv]] mem nv v
          show "update_committed rt (\<lambda>cs. id_matches settingId (sid cs)) (\<lambda>cs. id_matches settingId)
              (property req_body ''setting_value'') (committed w) (committed w')"
            unfolding update_committed_def by blast
        qed
      qed
    qed
  qed
qed

lemma put_setting_by_key_atomic:
  assumes p: "pending w = None"
      and u: "put_setting_by_key rt settingKey req_body user w = (r, w')"
  shows "(status r \<noteq> 200 \<longrightarrow> committed w' = committed w)
       \<and> (status r = 200 \<longrightarrow>
            update_committed rt (\<lambda>cs. setting_key cs = settingKey) (\<lambda>cs n. n = sid cs)
              (property req_body ''setting_value'') (committed w) (committed w'))"
proof (cases "field req_body ''setting_value''")
  case None
  then have "req_body = JUndefined \<or> req_body = JNull"
    by (cases req_body) (auto simp: field_def)
  then have "r = failure 500 ''Failed to update setting''" "w' = w"
    using u by (auto simp: put_setting_by_key_def field_def)
  then show ?thesis by simp
next
  case (Some val)
  then have cr: "field req_body ''change_reason'' = Some (property req_body ''change_reason'')"
    and v: "property req_body ''setting_value'' = val"
    by (cases req_body; auto simp: field_def property_def)+
  show ?thesis
  proof (cases "val = JUndefined")
    case True
    then show ?thesis using u Some cr by (auto simp: put_setting_by_key_def)
  next
    case False
    obtain ok1 w1 where g: "getConnection w = (ok1, w1)" by force
    note e1 = getConnection_effect[OF g]
    show ?thesis
    proof (cases ok1)
      case False
      then show ?thesis using u Some cr \<open>val \<noteq> JUndefined\<close> g e1
        by (auto simp: put_setting_by_key_def)
    next
      case True
      obtain ok2 w2 where b: "beginTransaction w1 = (ok2, w2)" by force
      have p1: "pending w1 = None" using e1 p by simp
      note e2 = beginTransaction_effect[OF b p1]
      show ?thesis
      proof (cases ok2)
        case False
        then show ?thesis using u Some cr \<open>val \<noteq> JUndefined\<close> g True b e1 e2
          by (auto simp: put_setting_by_key_def)
      next
        case ok2: True
        then have p2: "pending w2 = Some (committed w)" using e2 e1 by simp
        have tx: "update_setting_tx rt
                    (\<lambda>d. filter (\<lambda>r. setting_key r = settingKey) (system_settings d))
                    (\<lambda>cs n. n = sid cs) (\<lambda>cs. Some (sid cs))
                    (\<lambda>cs. nat_json (sid cs)) val (property req_body ''change_reason'')
                    (user_id user) w2 = (r, w')"
          using u Some cr \<open>val \<noteq> JUndefined\<close> g True b ok2
          by (simp add: put_setting_by_key_def)
        note a = update_setting_tx_atomic[OF p2 tx]
        have c2: "committed w2 = committed w" using e1 e2 by simp
        show ?thesis
        proof (intro conjI impI)
          assume "status r \<noteq> 200"
          with a c2 show "committed w' = committed w" by simp
        next
          assume "status r = 200"
          with a obtain cs rest nv d1 where
            sel: "filter (\<lambda>r. setting_key r = settingKey) (system_settings (committed w)) = cs # rest"
            and nv: "prepareValueForStorage rt cs val = Some nv"
            and d1: "update_statement rt (\<lambda>n. n = sid cs) nv (committed w) = Some d1"
            and d2: "insert_history rt (Some (sid cs)) (setting_value cs) nv (user_id user)
                       (or_else (property req_body ''change_reason'') (JStr ''Updated via API'')) d1
                     = Some (committed w')"
            by blast
          from sel have "cs \<in> set (filter (\<lambda>r. setting_key r = settingKey) (system_settings (committed w)))"
            by simp
          then have mem: "cs \<in> set (system_settings (committed w))" "setting_key cs = settingKey"
            by simp_all
          from two_writes[OF d1 d2] mem nv v
          show "update_committed rt (\<lambda>cs. setting_key cs = settingKey) (\<lambda>cs n. n = sid cs)
              (property req_body ''setting_value'') (committed w) (committed w')"
            unfolding update_committed_def by blast
        qed
      qed
    qed
  qed
qed



lemma sample_update:
  "status (fst (put_setting_by_id sample_runtime ''1'' (JObj [(''setting_value'', JStr ''Globex'')])
                  JUndefined (idle sample_db []))) = 200"
  "committed (snd (put_setting_by_id sample_runtime ''1'' (JObj [(''setting_value'', JStr ''Globex'')])
                  JUndefined (idle sample_db [])))
   = sample_db\<lparr>system_settings := [site_name\<lparr>setting_value := Some ''Globex''\<rparr>, enable_email],
               settings_history := [\<lparr>h_setting_id = 1, h_old_value = Some ''Acme'',
                  h_new_value = Some ''Globex'', h_changed_by = Some ''system'',
                  h_change_reason = Some ''Updated via API''\<rparr>]\<rparr>"
  "status (fst (put_setting_by_id sample_runtime ''1'' (JObj [(''setting_value'', JStr ''Globex'')])
                  JUndefined (idle sample_db [False, False, False, False, True]))) = 500"
  by (simp_all add: put_setting_by_id_def update_setting_tx_def field_def driver_defs sample_db_def
      site_name_def enable_email_def id_matches_def digits_value_def hex_val_def
      prepareValueForStorage_def update_statement_def insert_history_def sql_text_def
      set_value_def user_id_def or_else_def sample_runtime_def processSettingValue_def Let_def)


text \<open>
  C2. For \<open>PUT /settings/:id\<close> and \<open>PUT /settings/key/:key\<close>, in a request that starts
  outside a transaction: unless the request is answered 200 the committed tables are
  unchanged, whichever driver call rejects; when it is answered 200 the committed tables
  are the tables before it with the value updated and the history row appended. So the
  history row exists if and only if the mutation of the value committed.
\<close>

theorem setting_update_is_atomic:
  assumes "pending w = None"
  shows "(status (fst (put_setting_by_id rt settingId req_body user w)) \<noteq> 200 \<longrightarrow>
            committed (snd (put_setting_by_id rt settingId req_body user w)) = committed w)
       \<and> (status (fst (put_setting_by_id rt settingId req_body user w)) = 200 \<longrightarrow>
            update_committed rt (\<lambda>cs. id_matches settingId (sid cs)) (\<lambda>cs. id_matches settingId)
              (property req_body ''setting_value'') (committed w)
              (committed (snd (put_setting_by_id rt settingId req_body user w))))
       \<and> (status (fst (put_setting_by_key rt settingKey req_body user w)) \<noteq> 200 \<longrightarrow>
            committed (snd (put_setting_by_key rt settingKey req_body user w)) = committed w)
       \<and> (status (fst (put_setting_by_key rt settingKey req_body user w)) = 200 \<longrightarrow>
            update_committed rt (\<lambda>cs. setting_key cs = settingKey) (\<lambda>cs n. n = sid cs)
              (property req_body ''setting_value'') (committed w)
              (committed (snd (put_setting_by_key rt settingKey req_body user w))))"
  using put_setting_by_id_atomic[OF assms, of rt settingId req_body user
          "fst (put_setting_by_id rt settingId req_body user w)"
          "snd (put_setting_by_id rt settingId req_body user w)"]
    put_setting_by_key_atomic[OF assms, of rt settingKey req_body user
          "fst (put_setting_by_key rt settingKey req_body user w)"
          "snd (put_setting_by_key rt settingKey req_body user w)"]
  by simp

theorem setting_update_is_atomic_witness:
  "status (fst (put_setting_by_id sample_runtime ''1'' (JObj [(''setting_value'', JStr ''Globex'')])
                  JUndefined (idle sample_db []))) = 200
   \<and> update_committed sample_runtime (\<lambda>cs. id_matches ''1'' (sid cs)) (\<lambda>cs. id_matches ''1'')
        (JStr ''Globex'') sample_db
        (committed (snd (put_setting_by_id sample_runtime ''1''
                           (JObj [(''setting_value'', JStr ''Globex'')]) JUndefined
                           (idle sample_db []))))
   \<and> status (fst (put_setting_by_id sample_runtime ''1'' (JObj [(''setting_value'', JStr ''Globex'')])
                  JUndefined (idle sample_db [False, False, False, False, True]))) = 500
   \<and> committed (snd (put_setting_by_id sample_runtime ''1''
                        (JObj [(''setting_value'', JStr ''Globex'')]) JUndefined
                        (idle sample_db [False, False, False, False, True]))) = sample_db"
proof -
  have p: "pending (idle sample_db fs) = None" for fs by (simp add: idle_def)
  show ?thesis
    using setting_update_is_atomic [OF p, of sample_runtime "''1''"
            "JObj [(''setting_value'', JStr ''Globex'')]" JUndefined "[]"]
      setting_update_is_atomic [OF p, of sample_runtime "''1''"
            "JObj [(''setting_value'', JStr ''Globex'')]" JUndefined
            "[False, False, False, False, True]"]
      sample_update(1) sample_update(3)
    by (simp add: idle_def property_def field_def)
qed


section \<open>The bulk update is all or nothing\<close>

























section \<open>What the updates store\<close>















end
